theory Spec2Isabelle
  imports Main "HOL-Library.AList"
begin

section \<open>Python strings\<close>

text \<open>
  Text is modelled as \<^typ>\<open>string\<close>: a list of characters, each read as the code point
  of the same number (0 to 255). The functions below are the \<open>str\<close> methods the program
  calls, restricted to that range.
\<close>

definition code :: "char \<Rightarrow> nat" where
  "code c = of_char c"

definition py_isspace :: "char \<Rightarrow> bool" where
  \<comment> \<open>\<open>str.isspace\<close> on one character: the characters \<open>str.strip()\<close> removes.\<close>
  "py_isspace c = (let n = code c in
     (9 \<le> n \<and> n \<le> 13) \<or> (28 \<le> n \<and> n \<le> 32) \<or> n = 133 \<or> n = 160)"

definition lstrip :: "string \<Rightarrow> string" where
  "lstrip s = dropWhile py_isspace s"

definition rstrip :: "string \<Rightarrow> string" where
  "rstrip s = rev (dropWhile py_isspace (rev s))"

definition strip :: "string \<Rightarrow> string" where
  "strip s = rstrip (lstrip s)"

definition rstrip_char :: "char \<Rightarrow> string \<Rightarrow> string" where
  \<comment> \<open>\<open>s.rstrip(c)\<close> for a single character \<open>c\<close>.\<close>
  "rstrip_char c s = rev (dropWhile (\<lambda>x. x = c) (rev s))"

definition startswith :: "string \<Rightarrow> string \<Rightarrow> bool" where
  \<comment> \<open>\<open>s.startswith(p)\<close>\<close>
  "startswith s p = (take (length p) s = p)"




function replace_del :: "string \<Rightarrow> string \<Rightarrow> string" where
  \<comment> \<open>\<open>s.replace(pat, '')\<close>: every occurrence of \<open>pat\<close>, left to right, removed.\<close>
  "replace_del pat s =
     (if pat = [] \<or> s = [] then s
      else if startswith s pat then replace_del pat (drop (length pat) s)
      else hd s # replace_del pat (tl s))"
  by pat_completeness auto
termination
  by (relation "measure (\<lambda>(pat, s). length s)") auto

fun split_on :: "char \<Rightarrow> string \<Rightarrow> string \<Rightarrow> string list" where
  "split_on sep cur [] = [rev cur]"
| "split_on sep cur (c # cs) =
     (if c = sep then rev cur # split_on sep [] cs else split_on sep (c # cur) cs)"

definition split :: "string \<Rightarrow> char \<Rightarrow> string list" where
  \<comment> \<open>\<open>s.split(sep)\<close> for a single character \<open>sep\<close>.\<close>
  "split s sep = split_on sep [] s"

definition join :: "string \<Rightarrow> string list \<Rightarrow> string" where
  \<comment> \<open>\<open>sep.join(xs)\<close>\<close>
  "join sep xs = (case xs of [] \<Rightarrow> [] | y # ys \<Rightarrow> y @ concat (map (\<lambda>x. sep @ x) ys))"

definition digit_char :: "nat \<Rightarrow> char" where
  "digit_char d = char_of (48 + d)"

function dec_digits :: "nat \<Rightarrow> string" where
  "dec_digits n = (if n < 10 then [digit_char n] else dec_digits (n div 10) @ [digit_char (n mod 10)])"
  by pat_completeness auto
termination
  by (relation "measure id") auto

definition str_nat :: "nat \<Rightarrow> string" where
  "str_nat n = dec_digits n"

definition str_int :: "int \<Rightarrow> string" where
  \<comment> \<open>\<open>str(i)\<close> for an \<open>int\<close>\<close>
  "str_int i = (if i < 0 then CHR ''-'' # dec_digits (nat (- i)) else dec_digits (nat i))"

section \<open>JSON values and the \<open>json\<close> module\<close>

text \<open>
  The exceptions the handlers meet. \<open>json.JSONDecodeError\<close> is a \<open>ValueError\<close>, but an
  \<open>except json.JSONDecodeError\<close> clause catches neither a plain \<open>ValueError\<close> nor a
  \<open>RecursionError\<close>.
\<close>

datatype exn =
    ConnectionError           \<comment> \<open>a \<open>requests\<close> exception: the request got no response\<close>
  | HTTPError nat             \<comment> \<open>\<open>raise_for_status()\<close> on this status\<close>
  | InvalidJSON               \<comment> \<open>\<open>resp.json()\<close> on a body that is not JSON\<close>
  | JSONDecodeError           \<comment> \<open>\<open>json.loads\<close> on a text that is not JSON\<close>
  | RecursionError            \<comment> \<open>the interpreter's recursion limit was reached\<close>
  | ValueError                \<comment> \<open>an integer beyond the limit of \<open>sys.set_int_max_str_digits\<close>\<close>
  | AttributeError
  | TypeError
  | KeyError
  | TclError

definition is_RequestException :: "exn \<Rightarrow> bool" where
  \<comment> \<open>the exceptions \<open>except requests.exceptions.RequestException\<close> catches\<close>
  "is_RequestException e = (case e of
       ConnectionError \<Rightarrow> True | HTTPError _ \<Rightarrow> True | InvalidJSON \<Rightarrow> True | _ \<Rightarrow> False)"

text \<open>
  The values \<open>json.loads\<close> returns and \<open>json.dumps\<close> accepts: \<open>None\<close>, \<open>bool\<close>,
  \<open>int\<close>, \<open>float\<close>, \<open>str\<close>, \<open>list\<close> and \<open>dict\<close> with string keys. A \<open>dict\<close> is an
  association list in insertion order. A finite \<open>float\<close> is named by its \<open>repr\<close>, which
  tells two floats apart (\<open>0.0\<close> and \<open>-0.0\<close> are two floats).

  The type of characters is a parameter. The program's own values are of type \<open>json\<close>:
  their strings are lists of \<^typ>\<open>char\<close>, code points 0 to 255. The decoder and the
  encoder work on \<open>wjson\<close>, whose strings are lists of code points of any size: an
  escape \<open>\uXXXX\<close> of a text of characters below 256 can name any of them.
\<close>

datatype pyfloat =
    Finite string     \<comment> \<open>a finite float, by its \<open>repr\<close>\<close>
  | PosInf
  | NegInf
  | NaN

datatype 'c pjson =
    JNull
  | JBool bool
  | JInt int
  | JFloat pyfloat
  | JStr "'c list"
  | JArr "'c pjson list"
  | JObj "('c list \<times> 'c pjson) list"

type_synonym json = "char pjson"

type_synonym wjson = "nat pjson"

definition widen :: "json \<Rightarrow> wjson" where
  \<comment> \<open>the same value, its characters as code points\<close>
  "widen v = map_pjson code v"

definition narrow_str :: "nat list \<Rightarrow> string option" where
  "narrow_str cps = (if list_all (\<lambda>n. n < 256) cps then Some (map char_of cps) else None)"

primrec narrow :: "wjson \<Rightarrow> json option" where
  \<comment> \<open>the same value when all its code points are below 256, \<open>None\<close> otherwise\<close>
  "narrow JNull = Some JNull"
| "narrow (JBool b) = Some (JBool b)"
| "narrow (JInt i) = Some (JInt i)"
| "narrow (JFloat x) = Some (JFloat x)"
| "narrow (JStr s) = map_option JStr (narrow_str s)"
| "narrow (JArr xs) = map_option JArr (those (map narrow xs))"
| "narrow (JObj kvs) =
     map_option JObj
       (those (map (\<lambda>(k, v). case narrow_str k of None \<Rightarrow> None | Some k' \<Rightarrow> map_option (Pair k') v)
                   (map (map_prod id narrow) kvs)))"

text \<open>
  What the handlers depend on in the interpreter and its libraries. The two recursion
  limits are the numbers of calls still free where a handler calls \<open>json.loads\<close> and
  \<open>json.dumps\<close>: they follow from \<open>sys.getrecursionlimit()\<close> and the depth of the stack
  at that point. \<open>float_of\<close> is \<open>float(t)\<close> for a number literal \<open>t\<close> of JSON, the result
  named by its \<open>repr\<close>.
\<close>

record python =
  nesting_limit :: nat      \<comment> \<open>lists and dicts \<open>json.loads\<close> can enter, one inside the other\<close>
  encoder_limit :: nat      \<comment> \<open>frames \<open>json.dumps(v, indent=2)\<close> can stack\<close>
  compact_limit :: nat      \<comment> \<open>lists and dicts \<open>json.dumps(v)\<close> can enter, one inside the other\<close>
  max_str_digits :: nat     \<comment> \<open>\<open>sys.get_int_max_str_digits()\<close>; 0 is no limit\<close>
  float_of :: "string \<Rightarrow> pyfloat"
  float_int :: "string \<Rightarrow> int option"
      \<comment> \<open>the \<open>int\<close> equal to the finite float of this \<open>repr\<close>, if there is one\<close>
  body_error :: "json \<Rightarrow> exn option"
      \<comment> \<open>what \<open>requests.put(url, json=doc)\<close> raises when it encodes \<open>doc\<close>, before it
          sends anything; \<open>None\<close> when it sends the request\<close>

definition too_long :: "python \<Rightarrow> nat \<Rightarrow> bool" where
  \<comment> \<open>a number of decimal digits over the limit of conversions between \<open>int\<close> and \<open>str\<close>;
      a limit other than 0 is 640 at least\<close>
  "too_long py n = (0 < max_str_digits py \<and> max_str_digits py < n)"

subsection \<open>The encoder\<close>

definition hex_char :: "nat \<Rightarrow> char" where
  "hex_char d = (if d < 10 then char_of (48 + d) else char_of (87 + d))"












subsection \<open>The decoder\<close>

datatype 'a parse =
    Parsed 'a
  | Raised exn
  | OutOfFuel      \<comment> \<open>the model's count of steps ran out: \<open>loads\<close> never answers this\<close>

definition is_ws :: "char \<Rightarrow> bool" where
  \<comment> \<open>the decoder's \<open>WHITESPACE\<close>\<close>
  "is_ws c = (c = CHR '' '' \<or> c = CHR 0x09 \<or> c = CHR 0x0A \<or> c = CHR 0x0D)"

definition skip_ws :: "string \<Rightarrow> string" where
  "skip_ws s = dropWhile is_ws s"

definition is_digit :: "char \<Rightarrow> bool" where
  "is_digit c = (48 \<le> code c \<and> code c \<le> 57)"

definition hex_val :: "char \<Rightarrow> nat option" where
  "hex_val c = (let n = code c in
     if 48 \<le> n \<and> n \<le> 57 then Some (n - 48)
     else if 97 \<le> n \<and> n \<le> 102 then Some (n - 87)
     else if 65 \<le> n \<and> n \<le> 70 then Some (n - 55)
     else None)"

definition hex4_val :: "char \<Rightarrow> char \<Rightarrow> char \<Rightarrow> char \<Rightarrow> nat option" where
  \<comment> \<open>the four digits of a \<open>\uXXXX\<close> escape\<close>
  "hex4_val a b c d =
     (case (hex_val a, hex_val b, hex_val c, hex_val d) of
        (Some w, Some x, Some y, Some z) \<Rightarrow> Some (4096 * w + 256 * x + 16 * y + z)
      | _ \<Rightarrow> None)"

definition is_high :: "nat \<Rightarrow> bool" where
  \<comment> \<open>\<open>Py_UNICODE_IS_HIGH_SURROGATE\<close>\<close>
  "is_high n = (0xD800 \<le> n \<and> n \<le> 0xDBFF)"

definition is_low :: "nat \<Rightarrow> bool" where
  \<comment> \<open>\<open>Py_UNICODE_IS_LOW_SURROGATE\<close>\<close>
  "is_low n = (0xDC00 \<le> n \<and> n \<le> 0xDFFF)"

definition join_surrogates :: "nat \<Rightarrow> nat \<Rightarrow> nat" where
  \<comment> \<open>\<open>Py_UNICODE_JOIN_SURROGATES\<close>\<close>
  "join_surrogates hi lo = 0x10000 + (hi - 0xD800) * 1024 + (lo - 0xDC00)"

definition backslash :: "char \<Rightarrow> char option" where
  \<comment> \<open>the decoder's \<open>BACKSLASH\<close> table\<close>
  "backslash e =
     (if e = CHR 0x22 then Some (CHR 0x22)
      else if e = CHR 0x5C then Some (CHR 0x5C)
      else if e = CHR ''/'' then Some (CHR ''/'')
      else if e = CHR ''b'' then Some (CHR 0x08)
      else if e = CHR ''f'' then Some (CHR 0x0C)
      else if e = CHR ''n'' then Some (CHR 0x0A)
      else if e = CHR ''r'' then Some (CHR 0x0D)
      else if e = CHR ''t'' then Some (CHR 0x09)
      else None)"

fun scanstring :: "nat list \<Rightarrow> string \<Rightarrow> (nat list \<times> string) option" where
  \<comment> \<open>\<open>scanstring\<close> (strict) from just after the opening quote; \<open>acc\<close> is reversed.
      \<open>None\<close> is \<open>JSONDecodeError\<close>. An escape \<open>\uXXXX\<close> needs a character after its
      digits; a high surrogate followed by an escape of a low one, with a character after
      it, is joined with it.\<close>
  "scanstring acc [] = None"
| "scanstring acc (c # cs) =
     (if c = CHR 0x22 then Some (rev acc, cs)
      else if c = CHR 0x5C then
        (case cs of
           [] \<Rightarrow> None
         | e # es \<Rightarrow>
             if e = CHR ''u'' then
               (case es of
                  h1 # h2 # h3 # h4 # m # rest \<Rightarrow>
                    (case hex4_val h1 h2 h3 h4 of
                       None \<Rightarrow> None
                     | Some n \<Rightarrow>
                         if is_high n \<and> m = CHR 0x5C then
                           (case rest of
                              u # g1 # g2 # g3 # g4 # m2 # rest2 \<Rightarrow>
                                if u = CHR ''u'' then
                                  (case hex4_val g1 g2 g3 g4 of
                                     None \<Rightarrow> None
                                   | Some n2 \<Rightarrow>
                                       if is_low n2
                                       then scanstring (join_surrogates n n2 # acc) (m2 # rest2)
                                       else scanstring (n # acc) (m # rest))
                                else scanstring (n # acc) (m # rest)
                            | _ \<Rightarrow> scanstring (n # acc) (m # rest))
                         else scanstring (n # acc) (m # rest))
                | _ \<Rightarrow> None)
             else
               (case backslash e of
                  None \<Rightarrow> None
                | Some x \<Rightarrow> scanstring (code x # acc) es))
      else if code c < 32 then None
      else scanstring (code c # acc) cs)"

definition digits_val :: "string \<Rightarrow> nat" where
  "digits_val ds = foldl (\<lambda>n c. 10 * n + (code c - 48)) 0 ds"

definition match_int :: "string \<Rightarrow> (string \<times> string) option" where
  \<comment> \<open>the number pattern's \<open>(0|[1-9]\d*)\<close>: the digits matched and what follows\<close>
  "match_int s = (case s of
       [] \<Rightarrow> None
     | c # cs \<Rightarrow>
         if c = CHR ''0'' then Some ([c], cs)
         else if is_digit c then Some (c # takeWhile is_digit cs, dropWhile is_digit cs)
         else None)"

definition match_frac :: "string \<Rightarrow> string \<times> string" where
  \<comment> \<open>the number pattern's \<open>(\.\d+)?\<close>: what it matches (nothing, maybe) and what follows\<close>
  "match_frac s = (case s of
       c # x # r \<Rightarrow>
         if c = CHR ''.'' \<and> is_digit x then (c # x # takeWhile is_digit r, dropWhile is_digit r)
         else ([], s)
     | _ \<Rightarrow> ([], s))"

definition match_exp :: "string \<Rightarrow> string \<times> string" where
  \<comment> \<open>the number pattern's \<open>([eE][-+]?\d+)?\<close>: what it matches and what follows\<close>
  "match_exp s = (case s of
       c # x # r \<Rightarrow>
         if c = CHR ''e'' \<or> c = CHR ''E'' then
           (if is_digit x then (c # x # takeWhile is_digit r, dropWhile is_digit r)
            else if (x = CHR ''-'' \<or> x = CHR ''+'') \<and> r \<noteq> [] \<and> is_digit (hd r)
            then (c # x # takeWhile is_digit r, dropWhile is_digit r)
            else ([], s))
         else ([], s)
     | _ \<Rightarrow> ([], s))"

definition scan_number :: "python \<Rightarrow> string \<Rightarrow> (wjson \<times> string) parse" where
  \<comment> \<open>the number at the start of \<open>s\<close>: an \<open>int\<close> when the pattern matches neither a
      fraction nor an exponent, else a \<open>float\<close>\<close>
  "scan_number py s =
     (let neg = (s \<noteq> [] \<and> hd s = CHR ''-'') in
      case match_int (if neg then tl s else s) of
        None \<Rightarrow> Raised JSONDecodeError
      | Some (ds, r0) \<Rightarrow>
          (case match_frac r0 of
             (fr, r1) \<Rightarrow>
               (case match_exp r1 of
                  (ex, r2) \<Rightarrow>
                    if fr = [] \<and> ex = [] then
                      (if too_long py (length ds) then Raised ValueError
                       else Parsed (JInt (if neg then - int (digits_val ds) else int (digits_val ds)), r2))
                    else Parsed (JFloat (float_of py ((if neg then ''-'' else []) @ ds @ fr @ ex)), r2))))"

definition dict_set :: "('k \<times> 'v) list \<Rightarrow> 'k \<Rightarrow> 'v \<Rightarrow> ('k \<times> 'v) list" where
  \<comment> \<open>\<open>d[k] = v\<close>: an existing key keeps its place\<close>
  "dict_set d k v = AList.update k v d"

definition dict_of_pairs :: "('k \<times> 'v) list \<Rightarrow> ('k \<times> 'v) list" where
  \<comment> \<open>\<open>dict(pairs)\<close>\<close>
  "dict_of_pairs ps = foldl (\<lambda>d (k, v). dict_set d k v) [] ps"

fun scan_once :: "python \<Rightarrow> nat \<Rightarrow> nat \<Rightarrow> string \<Rightarrow> (wjson \<times> string) parse"
and JSONArray :: "python \<Rightarrow> nat \<Rightarrow> nat \<Rightarrow> wjson list \<Rightarrow> string \<Rightarrow> (wjson \<times> string) parse"
and JSONObject ::
  "python \<Rightarrow> nat \<Rightarrow> nat \<Rightarrow> (nat list \<times> wjson) list \<Rightarrow> string \<Rightarrow> (wjson \<times> string) parse" where
  \<comment> \<open>\<open>scan_once\<close> of the scanner written in C. The first number counts the steps of the
      model; the second, \<open>depth\<close>, is the number of lists and dicts that can still be
      entered: the scanner checks the recursion limit at each \<open>[\<close> and \<open>{\<close>.\<close>
  "scan_once py 0 depth s = OutOfFuel"
| "scan_once py (Suc n) depth s =
     (case s of
        [] \<Rightarrow> Raised JSONDecodeError
      | c # cs \<Rightarrow>
          if c = CHR 0x22 then
            (case scanstring [] cs of
               Some (str, rest) \<Rightarrow> Parsed (JStr str, rest)
             | None \<Rightarrow> Raised JSONDecodeError)
          else if c = CHR ''{'' then
            (if depth = 0 then Raised RecursionError
             else case skip_ws cs of
                    [] \<Rightarrow> Raised JSONDecodeError
                  | x # xs \<Rightarrow>
                      if x = CHR ''}'' then Parsed (JObj [], xs)
                      else if x = CHR 0x22 then JSONObject py n (depth - 1) [] xs
                      else Raised JSONDecodeError)
          else if c = CHR ''['' then
            (if depth = 0 then Raised RecursionError
             else case skip_ws cs of
                    [] \<Rightarrow> Raised JSONDecodeError
                  | x # xs \<Rightarrow>
                      if x = CHR '']'' then Parsed (JArr [], xs)
                      else JSONArray py n (depth - 1) [] (x # xs))
          else if startswith s ''null'' then Parsed (JNull, drop 4 s)
          else if startswith s ''true'' then Parsed (JBool True, drop 4 s)
          else if startswith s ''false'' then Parsed (JBool False, drop 5 s)
          else if startswith s ''NaN'' then Parsed (JFloat NaN, drop 3 s)
          else if startswith s ''Infinity'' then Parsed (JFloat PosInf, drop 8 s)
          else if startswith s ''-Infinity'' then Parsed (JFloat NegInf, drop 9 s)
          else scan_number py s)"
| "JSONArray py 0 depth acc s = OutOfFuel"
| "JSONArray py (Suc n) depth acc s =
     \<comment> \<open>the loop of \<open>_parse_array\<close>, at the start of a value; \<open>acc\<close> is reversed\<close>
     (case scan_once py n depth s of
        Parsed (v, rest) \<Rightarrow>
          (case skip_ws rest of
             [] \<Rightarrow> Raised JSONDecodeError
           | x # xs \<Rightarrow>
               if x = CHR '']'' then Parsed (JArr (rev (v # acc)), xs)
               else if x = CHR '','' then JSONArray py n depth (v # acc) (skip_ws xs)
               else Raised JSONDecodeError)
      | Raised e \<Rightarrow> Raised e
      | OutOfFuel \<Rightarrow> OutOfFuel)"
| "JSONObject py 0 depth acc s = OutOfFuel"
| "JSONObject py (Suc n) depth acc s =
     \<comment> \<open>the loop of \<open>_parse_object\<close>, just after the opening quote of a key;
         \<open>acc\<close> is the reversed list of pairs\<close>
     (case scanstring [] s of
        Some (key, rest) \<Rightarrow>
          (case skip_ws rest of
             [] \<Rightarrow> Raised JSONDecodeError
           | x # xs \<Rightarrow>
               if x \<noteq> CHR '':'' then Raised JSONDecodeError
               else
                 (case scan_once py n depth (skip_ws xs) of
                    Parsed (v, rest') \<Rightarrow>
                      (case skip_ws rest' of
                         [] \<Rightarrow> Raised JSONDecodeError
                       | y # ys \<Rightarrow>
                           if y = CHR ''}'' then Parsed (JObj (dict_of_pairs (rev ((key, v) # acc))), ys)
                           else if y = CHR '','' then
                             (case skip_ws ys of
                                [] \<Rightarrow> Raised JSONDecodeError
                              | q # qs \<Rightarrow>
                                  if q = CHR 0x22 then JSONObject py n depth ((key, v) # acc) qs
                                  else Raised JSONDecodeError)
                           else Raised JSONDecodeError)
                  | Raised e \<Rightarrow> Raised e
                  | OutOfFuel \<Rightarrow> OutOfFuel))
      | None \<Rightarrow> Raised JSONDecodeError)"

definition loads :: "python \<Rightarrow> string \<Rightarrow> wjson parse" where
  \<comment> \<open>\<open>json.loads(s)\<close> for a text of characters below 256\<close>
  "loads py s =
     (case scan_once py (2 * length s + 1) (nesting_limit py) (skip_ws s) of
        Parsed (v, rest) \<Rightarrow> (if skip_ws rest = [] then Parsed v else Raised JSONDecodeError)
      | Raised e \<Rightarrow> Raised e
      | OutOfFuel \<Rightarrow> OutOfFuel)"

subsection \<open>Equality of decoded values\<close>

text \<open>
  \<open>v == w\<close> for two values that \<open>json.loads\<close> returned. Numbers compare by value across
  \<open>bool\<close>, \<open>int\<close> and \<open>float\<close>; \<open>NaN\<close> is equal to no number, itself included. Inside a
  list or a dict two objects that are one and the same count as equal without being
  compared, and \<open>json.loads\<close> returns the one object \<open>json.decoder.NaN\<close> for every
  \<open>NaN\<close> of a text: so \<open>py_same\<close>, the comparison of what two lists or dicts hold, takes
  \<open>NaN\<close> as equal to \<open>NaN\<close>, while \<open>py_eq\<close> does not.
\<close>

datatype pynum = Whole int | Other pyfloat

definition py_num :: "python \<Rightarrow> 'c pjson \<Rightarrow> pynum option" where
  \<comment> \<open>the number a value is, as \<open>==\<close> sees it; \<open>None\<close> for \<open>NaN\<close> and for what is no number\<close>
  "py_num py v = (case v of
       JBool b \<Rightarrow> Some (Whole (if b then 1 else 0))
     | JInt i \<Rightarrow> Some (Whole i)
     | JFloat x \<Rightarrow>
         (case x of
            Finite r \<Rightarrow> (case float_int py r of Some i \<Rightarrow> Some (Whole i) | None \<Rightarrow> Some (Other x))
          | NaN \<Rightarrow> None
          | _ \<Rightarrow> Some (Other x))
     | _ \<Rightarrow> None)"

primrec py_same :: "'c pjson \<Rightarrow> python \<Rightarrow> 'c pjson \<Rightarrow> bool" where
  "py_same JNull = (\<lambda>py w. w = JNull)"
| "py_same (JBool b) = (\<lambda>py w. py_num py w = Some (Whole (if b then 1 else 0)))"
| "py_same (JInt i) = (\<lambda>py w. py_num py w = Some (Whole i))"
| "py_same (JFloat x) = (\<lambda>py w.
     if x = NaN then w = JFloat NaN else py_num py w = py_num py (JFloat x :: 'c pjson))"
| "py_same (JStr s) = (\<lambda>py w. w = JStr s)"
| "py_same (JArr xs) = (\<lambda>py w.
     case w of
       JArr ys \<Rightarrow> list_all2 (\<lambda>f y. f py y) (map py_same xs) ys
     | _ \<Rightarrow> False)"
| "py_same (JObj kvs) = (\<lambda>py w.
     case w of
       JObj lws \<Rightarrow>
         length kvs = length lws
         \<and> list_all (\<lambda>(k, f). case map_of lws k of Some y \<Rightarrow> f py y | None \<Rightarrow> False)
              (map (map_prod id py_same) kvs)
     | _ \<Rightarrow> False)"

definition py_eq :: "python \<Rightarrow> 'c pjson \<Rightarrow> 'c pjson \<Rightarrow> bool" where
  "py_eq py v w = (v \<noteq> JFloat NaN \<and> w \<noteq> JFloat NaN \<and> py_same v py w)"

section \<open>Python values\<close>

definition repr_char :: "char \<Rightarrow> char \<Rightarrow> string" where
  \<comment> \<open>one character of \<open>repr(s)\<close> inside the quote \<open>q\<close>\<close>
  "repr_char q c =
     (let n = code c; hex = [CHR 0x5C, CHR ''x'', hex_char (n div 16), hex_char (n mod 16)] in
      if c = q \<or> c = CHR 0x5C then [CHR 0x5C, c]
      else if c = CHR 0x09 then [CHR 0x5C, CHR ''t'']
      else if c = CHR 0x0A then [CHR 0x5C, CHR ''n'']
      else if c = CHR 0x0D then [CHR 0x5C, CHR ''r'']
      else if n < 32 \<or> n = 127 then hex
      else if n < 127 then [c]
      else if n \<le> 160 \<or> n = 173 then hex
      else [c])"

definition repr_str :: "string \<Rightarrow> string" where
  \<comment> \<open>\<open>repr(s)\<close> for a \<open>str\<close>\<close>
  "repr_str s =
     (let q = (if CHR 0x27 \<in> set s \<and> CHR 0x22 \<notin> set s then CHR 0x22 else CHR 0x27)
      in q # concat (map (repr_char q) s) @ [q])"

definition float_repr :: "pyfloat \<Rightarrow> string" where
  \<comment> \<open>\<open>repr(x)\<close> for a \<open>float\<close>\<close>
  "float_repr x = (case x of
       Finite r \<Rightarrow> r | PosInf \<Rightarrow> ''inf'' | NegInf \<Rightarrow> ''-inf'' | NaN \<Rightarrow> ''nan'')"

primrec py_repr :: "json \<Rightarrow> string" where
  "py_repr JNull = ''None''"
| "py_repr (JBool b) = (if b then ''True'' else ''False'')"
| "py_repr (JInt i) = str_int i"
| "py_repr (JFloat x) = float_repr x"
| "py_repr (JStr s) = repr_str s"
| "py_repr (JArr xs) = ''['' @ join '', '' (map py_repr xs) @ '']''"
| "py_repr (JObj kvs) =
     ''{'' @ join '', '' (map (\<lambda>(k, t). repr_str k @ '': '' @ t) (map (map_prod id py_repr) kvs)) @ ''}''"

definition py_str :: "json \<Rightarrow> string" where
  \<comment> \<open>\<open>str(v)\<close>, also what an f-string puts for \<open>{v}\<close>\<close>
  "py_str v = (case v of JStr s \<Rightarrow> s | _ \<Rightarrow> py_repr v)"

definition truthy :: "json \<Rightarrow> bool" where
  \<comment> \<open>\<open>bool(v)\<close>\<close>
  "truthy v = (case v of
       JNull \<Rightarrow> False
     | JBool b \<Rightarrow> b
     | JInt i \<Rightarrow> i \<noteq> 0
     | JFloat x \<Rightarrow> x \<noteq> Finite ''0.0'' \<and> x \<noteq> Finite ''-0.0''
     | JStr s \<Rightarrow> s \<noteq> []
     | JArr xs \<Rightarrow> xs \<noteq> []
     | JObj kvs \<Rightarrow> kvs \<noteq> [])"

definition py_get :: "json \<Rightarrow> string \<Rightarrow> json \<Rightarrow> exn + json" where
  \<comment> \<open>\<open>v.get(k, default)\<close>: only a \<open>dict\<close> has \<open>get\<close>\<close>
  "py_get v k dflt = (case v of
       JObj kvs \<Rightarrow> Inr (case map_of kvs k of Some x \<Rightarrow> x | None \<Rightarrow> dflt)
     | _ \<Rightarrow> Inl AttributeError)"

definition py_iter :: "json \<Rightarrow> exn + json list" where
  \<comment> \<open>what \<open>for x in v\<close> runs over\<close>
  "py_iter v = (case v of
       JArr xs \<Rightarrow> Inr xs
     | JObj kvs \<Rightarrow> Inr (map (\<lambda>(k, _). JStr k) kvs)
     | JStr s \<Rightarrow> Inr (map (\<lambda>c. JStr [c]) s)
     | _ \<Rightarrow> Inl TypeError)"

definition py_len :: "json \<Rightarrow> exn + nat" where
  \<comment> \<open>\<open>len(v)\<close>\<close>
  "py_len v = (case v of
       JArr xs \<Rightarrow> Inr (length xs)
     | JObj kvs \<Rightarrow> Inr (length kvs)
     | JStr s \<Rightarrow> Inr (length s)
     | _ \<Rightarrow> Inl TypeError)"

section \<open>HTTP and the widgets\<close>

text \<open>
  The server is the environment: a function from the requests sent so far and the next
  request to its answer. A response carries its status and its body as \<open>resp.json()\<close>
  decodes it (\<open>None\<close> when the body is not JSON). Console output (\<open>print\<close>) and the
  redrawing of the window (\<open>self.update()\<close>) are not part of the state.
\<close>

datatype verb = GET | PUT | POST | DELETE

record request =
  req_verb :: verb
  req_url :: string
  req_json :: "json option"
  req_auth :: "string \<times> string"

datatype http_result = NoResponse | Response nat "json option"

type_synonym server = "request list \<Rightarrow> request \<Rightarrow> http_result"

definition raise_for_status :: "http_result \<Rightarrow> exn + (nat \<times> json option)" where
  \<comment> \<open>the request followed by \<open>resp.raise_for_status()\<close>\<close>
  "raise_for_status r = (case r of
       NoResponse \<Rightarrow> Inl ConnectionError
     | Response status body \<Rightarrow>
         if 400 \<le> status \<and> status < 600 then Inl (HTTPError status) else Inr (status, body))"

definition resp_json :: "json option \<Rightarrow> exn + json" where
  \<comment> \<open>\<open>resp.json()\<close>\<close>
  "resp_json body = (case body of None \<Rightarrow> Inl InvalidJSON | Some v \<Rightarrow> Inr v)"

datatype message =
    Txt string              \<comment> \<open>a text with no exception in it\<close>
  | TxtExn string exn       \<comment> \<open>\<open>f"{prefix}{e}"\<close>\<close>
  | TxtExn50 string exn     \<comment> \<open>\<open>f"{prefix}{str(e)[:50]}"\<close>\<close>
  | TxtCut50 string exn     \<comment> \<open>\<open>f"{prefix}{e}"[:50] + "..."\<close>\<close>

datatype dialog =
    ShowInfo string message
  | ShowWarning string message
  | ShowError string message
  | AskYesNo string message   \<comment> \<open>the question; the answer is an input of the operation\<close>

text \<open>
  A \<open>ttk.Treeview\<close> used as a flat table: the rows in display order, each with its item
  identifier, the selected items, and the next fresh identifier. A cell holds the Python
  value it was given.
\<close>

record 'v treeview =
  rows :: "(nat \<times> 'v) list"
  selection :: "nat list"
  fresh :: nat

definition get_children :: "'v treeview \<Rightarrow> nat list" where
  "get_children t = map fst (rows t)"

definition item_values :: "'v treeview \<Rightarrow> nat \<Rightarrow> 'v option" where
  \<comment> \<open>\<open>t.item(i, "values")\<close>; \<open>None\<close> is the \<open>TclError\<close> of an unknown item\<close>
  "item_values t i = map_of (rows t) i"

definition tv_delete :: "'v treeview \<Rightarrow> nat \<Rightarrow> 'v treeview option" where
  \<comment> \<open>\<open>t.delete(i)\<close>; \<open>None\<close> is the \<open>TclError\<close> of an unknown item\<close>
  "tv_delete t i =
     (if i \<in> set (get_children t)
      then Some (t\<lparr>rows := filter (\<lambda>(j, _). j \<noteq> i) (rows t),
                  selection := filter (\<lambda>j. j \<noteq> i) (selection t)\<rparr>)
      else None)"

definition tv_clear :: "'v treeview \<Rightarrow> 'v treeview" where
  \<comment> \<open>\<open>for item in t.get_children(): t.delete(item)\<close>\<close>
  "tv_clear t = t\<lparr>rows := [], selection := []\<rparr>"

definition tv_insert :: "'v treeview \<Rightarrow> 'v \<Rightarrow> 'v treeview" where
  \<comment> \<open>\<open>t.insert("", "end", values=v)\<close>\<close>
  "tv_insert t v = t\<lparr>rows := rows t @ [(fresh t, v)], fresh := Suc (fresh t)\<rparr>"

definition tv_set_values :: "'v treeview \<Rightarrow> nat \<Rightarrow> 'v \<Rightarrow> 'v treeview" where
  \<comment> \<open>\<open>t.item(i, values=v)\<close> on an item of the table\<close>
  "tv_set_values t i v = t\<lparr>rows := map (\<lambda>(j, w). if j = i then (j, v) else (j, w)) (rows t)\<rparr>"

record window =
  status_var :: message
  dialogs :: "dialog list"
  http_log :: "request list"

definition set_status :: "message \<Rightarrow> ('a::type) window_scheme \<Rightarrow> 'a window_scheme" where
  "set_status m w = w\<lparr>status_var := m\<rparr>"

definition show_dialog :: "dialog \<Rightarrow> ('a::type) window_scheme \<Rightarrow> 'a window_scheme" where
  "show_dialog d w = w\<lparr>dialogs := dialogs w @ [d]\<rparr>"

definition send :: "server \<Rightarrow> request \<Rightarrow> ('a::type) window_scheme \<Rightarrow> http_result \<times> 'a window_scheme" where
  \<comment> \<open>one call of \<open>requests.get/put/post/delete\<close>\<close>
  "send srv r w = (srv (http_log w) r, w\<lparr>http_log := http_log w @ [r]\<rparr>)"

datatype 's outcome =
    Returned 's         \<comment> \<open>the handler returned\<close>
  | Uncaught exn 's     \<comment> \<open>an exception left the handler, in this state\<close>
  | Unmodelled 's       \<comment> \<open>from this state on the handler works with a string or a key that
                            the types of the model do not hold\<close>


section \<open>The main window: \<open>CouchDBManager\<close>\<close>

definition quoted :: "string \<Rightarrow> string" where
  \<comment> \<open>\<open>f"'{s}'"\<close>\<close>
  "quoted s = CHR 0x27 # s @ [CHR 0x27]"

definition nl :: string where
  "nl = [CHR 0x0A]"

record manager = window +
  url_var :: string
  user_var :: string
  pass_var :: string
  tree :: "string treeview"   \<comment> \<open>one column: the database name\<close>

definition manager_url :: "manager \<Rightarrow> string" where
  \<comment> \<open>\<open>self.url_var.get().rstrip('/')\<close>\<close>
  "manager_url st = rstrip_char CHR ''/'' (url_var st)"

definition manager_auth :: "manager \<Rightarrow> string \<times> string" where
  \<comment> \<open>\<open>HTTPBasicAuth(self.user_var.get().strip(), self.pass_var.get().strip())\<close>\<close>
  "manager_auth st = (strip (user_var st), strip (pass_var st))"

fun delete_loop ::
  "server \<Rightarrow> string \<Rightarrow> string \<times> string \<Rightarrow> nat list \<Rightarrow> nat \<Rightarrow> nat \<Rightarrow> manager
     \<Rightarrow> (exn \<times> manager) + (nat \<times> nat \<times> manager)" where
  \<comment> \<open>the \<open>for item in ...\<close> loop of \<open>delete_selected\<close> and \<open>delete_all\<close>, with its two counters\<close>
  "delete_loop srv url auth [] success_count fail_count st = Inr (success_count, fail_count, st)"
| "delete_loop srv url auth (item # items) success_count fail_count st =
     (case item_values (tree st) item of
        None \<Rightarrow> Inl (TclError, st)
      | Some db \<Rightarrow>
          (case send srv \<lparr>req_verb = DELETE, req_url = url @ ''/'' @ db,
                           req_json = None, req_auth = auth\<rparr> st of
             (resp, st1) \<Rightarrow>
               (case raise_for_status resp of
                  Inl e \<Rightarrow> delete_loop srv url auth items success_count (Suc fail_count) st1
                | Inr _ \<Rightarrow>
                    (case tv_delete (tree st1) item of
                       None \<Rightarrow> delete_loop srv url auth items success_count (Suc fail_count) st1
                     | Some t \<Rightarrow>
                         delete_loop srv url auth items (Suc success_count) fail_count
                           (st1\<lparr>tree := t\<rparr>)))))"

definition delete_report :: "nat \<Rightarrow> nat \<Rightarrow> manager \<Rightarrow> manager" where
  \<comment> \<open>the status line and the warning after the loop\<close>
  "delete_report success_count fail_count st =
     (let st1 = set_status (Txt (''Deleted '' @ str_nat success_count
                  @ '' database(s). Failed: '' @ str_nat fail_count)) st
      in if fail_count > 0
         then show_dialog (ShowWarning ''Delete Result''
                (Txt (''Successfully deleted '' @ str_nat success_count @ '' database(s).'' @ nl
                   @ ''Failed to delete '' @ str_nat fail_count @ '' database(s).''))) st1
         else st1)"

definition delete_selected :: "server \<Rightarrow> bool \<Rightarrow> manager \<Rightarrow> manager outcome" where
  \<comment> \<open>\<open>confirm\<close> is the operator's answer to the question\<close>
  "delete_selected srv confirm st =
     (let selected = selection (tree st) in
      if selected = [] then
        Returned (show_dialog (ShowInfo ''Info'' (Txt ''No databases selected.'')) st)
      else
        let st1 = show_dialog (AskYesNo ''Confirm''
                    (Txt (''Delete '' @ str_nat (length selected) @ '' selected database(s)?'' @ nl
                       @ ''This action cannot be undone.''))) st
        in if \<not> confirm then Returned st1
           else
             let st2 = set_status (Txt (''Deleting '' @ str_nat (length selected)
                          @ '' database(s)...'')) st1
             in case delete_loop srv (manager_url st) (manager_auth st) selected 0 0 st2 of
                  Inl (e, st3) \<Rightarrow> Uncaught e st3
                | Inr (success_count, fail_count, st3) \<Rightarrow>
                    Returned (delete_report success_count fail_count st3))"

definition delete_all :: "server \<Rightarrow> bool \<Rightarrow> manager \<Rightarrow> manager outcome" where
  "delete_all srv confirm st =
     (let all_items = get_children (tree st) in
      if all_items = [] then
        Returned (show_dialog (ShowInfo ''Info'' (Txt ''No databases to delete.'')) st)
      else
        let count = length all_items;
            st1 = show_dialog (AskYesNo ''Confirm''
                    (Txt (''Delete ALL '' @ str_nat count
                       @ '' databases? This action cannot be undone.''))) st
        in if \<not> confirm then Returned st1
           else
             let st2 = set_status (Txt (''Deleting all '' @ str_nat count @ '' database(s)...'')) st1
             in case delete_loop srv (manager_url st) (manager_auth st) all_items 0 0 st2 of
                  Inl (e, st3) \<Rightarrow> Uncaught e st3
                | Inr (success_count, fail_count, st3) \<Rightarrow>
                    Returned (delete_report success_count fail_count st3))"

definition default_index_payload :: "string \<Rightarrow> json" where
  \<comment> \<open>\<open>{"index": {"fields": ["_id"]}, "name": f"{db}_idx"}\<close>\<close>
  "default_index_payload db =
     JObj [(''index'', JObj [(''fields'', JArr [JStr ''_id''])]), (''name'', JStr (db @ ''_idx''))]"

definition create_default_index :: "server \<Rightarrow> string \<Rightarrow> string \<times> string \<Rightarrow> manager \<Rightarrow> manager" where
  \<comment> \<open>\<open>_create_index\<close>: the answer is not looked at, an exception is printed and dropped\<close>
  "create_default_index srv db auth st =
     snd (send srv \<lparr>req_verb = POST, req_url = manager_url st @ ''/'' @ db @ ''/_index'',
                     req_json = Some (default_index_payload db), req_auth = auth\<rparr> st)"

definition add_db :: "server \<Rightarrow> string option \<Rightarrow> manager \<Rightarrow> manager outcome" where
  \<comment> \<open>\<open>result\<close> is what the input dialog returned (\<open>None\<close> when cancelled)\<close>
  "add_db srv result st =
     (case result of
        None \<Rightarrow> Returned st
      | Some name \<Rightarrow>
          if name = [] then Returned st
          else
            let url = manager_url st;
                auth = manager_auth st;
                st1 = set_status (Txt (''Creating database '' @ quoted name @ ''...'')) st
            in case send srv \<lparr>req_verb = PUT, req_url = url @ ''/'' @ name,
                                req_json = None, req_auth = auth\<rparr> st1 of
                 (resp, st2) \<Rightarrow>
                   (case raise_for_status resp of
                      Inl e \<Rightarrow>
                        Returned (show_dialog (ShowError ''Error''
                                     (TxtExn (''Failed to create database:'' @ nl) e))
                                   (set_status (Txt (''Failed to create database '' @ quoted name)) st2))
                    | Inr _ \<Rightarrow>
                        let st3 = st2\<lparr>tree := tv_insert (tree st2) name\<rparr>;
                            st4 = create_default_index srv name auth st3
                        in Returned (set_status
                             (Txt (''Created database '' @ quoted name @ '' with default index'')) st4)))"

definition index_payload :: "string \<Rightarrow> string \<Rightarrow> json" where
  \<comment> \<open>\<open>{"index": {"fields": [f.strip() for f in fields.split(',')]}, "name": name}\<close>\<close>
  "index_payload name fields_input =
     JObj [(''index'', JObj [(''fields'', JArr (map (\<lambda>f. JStr (strip f)) (split fields_input CHR '','')))]),
           (''name'', JStr name)]"

definition create_index :: "server \<Rightarrow> string \<Rightarrow> string \<Rightarrow> manager \<Rightarrow> manager outcome" where
  \<comment> \<open>\<open>name\<close> and \<open>fields_input\<close> are the two entries of the dialog (both empty when cancelled)\<close>
  "create_index srv name fields_input st =
     (let selected = selection (tree st) in
      if selected = [] \<or> length selected \<noteq> 1 then
        Returned (show_dialog (ShowInfo ''Info''
                    (Txt ''Select a single database to create an index.'')) st)
      else
        case item_values (tree st) (hd selected) of
          None \<Rightarrow> Uncaught TclError st
        | Some db \<Rightarrow>
            if name = [] \<or> fields_input = [] then Returned st
            else
              let auth = manager_auth st;
                  st1 = set_status (Txt (''Creating index '' @ quoted name @ '' in ''
                           @ quoted db @ ''...'')) st
              in case send srv \<lparr>req_verb = POST,
                                  req_url = manager_url st @ ''/'' @ db @ ''/_index'',
                                  req_json = Some (index_payload name fields_input),
                                  req_auth = auth\<rparr> st1 of
                   (resp, st2) \<Rightarrow>
                     (case raise_for_status resp of
                        Inl e \<Rightarrow>
                          Returned (show_dialog (ShowError ''Error''
                                       (TxtExn (''Failed to create index:'' @ nl) e))
                                     (set_status (Txt (''Failed to create index '' @ quoted name)) st2))
                      | Inr _ \<Rightarrow>
                          Returned (set_status
                                      (Txt (''Created index '' @ quoted name @ '' in '' @ quoted db))
                                      (show_dialog (ShowInfo ''Index Created''
                                         (Txt (''Index '' @ quoted name @ '' created in ''
                                            @ quoted db @ ''.''))) st2))))"

section \<open>The browse window: \<open>BrowseWindow\<close>\<close>

record browse = window +
  db :: string
  base_url :: string
  auth :: "string \<times> string"
  docs :: "(string \<times> json) list"                        \<comment> \<open>the document cache, a \<open>dict\<close>\<close>
  current_doc :: "string option"
  idx_tree :: "(string \<times> json \<times> string) treeview"     \<comment> \<open>columns \<open>ddoc\<close>, \<open>name\<close>, \<open>fields\<close>\<close>
  doc_tree :: "(string \<times> json) treeview"               \<comment> \<open>columns \<open>id\<close>, \<open>rev\<close>\<close>
  editor :: string                                        \<comment> \<open>the contents of \<open>self.text\<close>\<close>
  search_var :: string

definition is_dict :: "json \<Rightarrow> bool" where
  "is_dict v = (case v of JObj _ \<Rightarrow> True | _ \<Rightarrow> False)"

definition is_list :: "json \<Rightarrow> bool" where
  "is_list v = (case v of JArr _ \<Rightarrow> True | _ \<Rightarrow> False)"

definition field_entries :: "json \<Rightarrow> string list" where
  \<comment> \<open>what one element \<open>f\<close> of \<open>fields\<close> adds to \<open>fields_list\<close>\<close>
  "field_entries f = (case f of
       JObj kvs \<Rightarrow> map (\<lambda>(k, v). k @ '':'' @ py_str v) kvs
     | _ \<Rightarrow> [py_str f])"

definition index_fields :: "json \<Rightarrow> string list" where
  \<comment> \<open>\<open>fields_list\<close> for the index \<open>idx\<close>, a \<open>dict\<close>\<close>
  "index_fields idx =
     (case py_get idx ''def'' (JObj []) of
        Inl e \<Rightarrow> [''<error>'']
      | Inr fields_def \<Rightarrow>
          if truthy fields_def \<and> is_dict fields_def then
            (case py_get fields_def ''fields'' (JArr []) of
               Inl e \<Rightarrow> [''<error>'']
             | Inr fs \<Rightarrow>
                 (case fs of
                    JArr xs \<Rightarrow> concat (map field_entries xs)
                  | _ \<Rightarrow> []))
          else [])"

definition index_row :: "json \<Rightarrow> exn + (string \<times> json \<times> string)" where
  \<comment> \<open>the row \<open>(ddoc, name, fields_str)\<close> of one element of \<open>indexes\<close>\<close>
  "index_row idx =
     (case py_get idx ''ddoc'' (JStr []) of
        Inl e \<Rightarrow> Inl e
      | Inr ddoc \<Rightarrow>
          (case py_get idx ''name'' (JStr []) of
             Inl e \<Rightarrow> Inl e
           | Inr name \<Rightarrow>
               Inr (if ddoc = JNull then [] else replace_del ''_design/'' (py_str ddoc),
                    name,
                    join '', '' (index_fields idx))))"

fun index_loop ::
  "json list \<Rightarrow> (string \<times> json \<times> string) treeview
     \<Rightarrow> exn option \<times> (string \<times> json \<times> string) treeview" where
  \<comment> \<open>\<open>for idx in indexes\<close>: the table when the loop ends, and the exception that ended it\<close>
  "index_loop [] t = (None, t)"
| "index_loop (idx # rest) t =
     (case index_row idx of
        Inl e \<Rightarrow> (Some e, t)
      | Inr row \<Rightarrow> index_loop rest (tv_insert t row))"

definition load_indexes_failed :: "exn \<Rightarrow> browse \<Rightarrow> browse" where
  \<comment> \<open>the three \<open>except\<close> clauses of \<open>load_indexes\<close>, in their order\<close>
  "load_indexes_failed e st =
     (if is_RequestException e then
        show_dialog (ShowError ''Connection Error'' (TxtExn ''Network error: '' e))
          (set_status (TxtCut50 ''Network error: '' e) st)
      else if e = JSONDecodeError then
        show_dialog (ShowError ''JSON Error'' (TxtExn ''Invalid JSON response: '' e))
          (set_status (TxtCut50 ''Invalid JSON response: '' e) st)
      else
        show_dialog (ShowError ''Index Loading Error'' (TxtExn ''Error loading indexes: '' e))
          (set_status (TxtCut50 ''Error loading indexes: '' e) st))"

definition load_indexes :: "server \<Rightarrow> browse \<Rightarrow> browse" where
  "load_indexes srv st =
     (let url = base_url st @ ''/'' @ db st @ ''/_index'';
          st1 = set_status (Txt (''Fetching from: '' @ url))
                  (set_status (Txt ''Loading indexes...'') st)
      in case send srv \<lparr>req_verb = GET, req_url = url, req_json = None, req_auth = auth st\<rparr> st1 of
           (resp, st2) \<Rightarrow>
             (case raise_for_status resp of
                Inl e \<Rightarrow> load_indexes_failed e st2
              | Inr (status, body) \<Rightarrow>
                  (case resp_json body of
                     Inl e \<Rightarrow> load_indexes_failed e st2
                   | Inr data \<Rightarrow>
                       (case py_get data ''indexes'' (JArr []) of
                          Inl e \<Rightarrow> load_indexes_failed e st2
                        | Inr indexes \<Rightarrow>
                            (case py_len indexes of
                               Inl e \<Rightarrow> load_indexes_failed e st2
                             | Inr n \<Rightarrow>
                                 let st3 = st2\<lparr>idx_tree := tv_clear (idx_tree st2)\<rparr> in
                                 (case py_iter indexes of
                                    Inl e \<Rightarrow> load_indexes_failed e st3
                                  | Inr xs \<Rightarrow>
                                      (case index_loop xs (idx_tree st3) of
                                         (Some e, t) \<Rightarrow> load_indexes_failed e (st3\<lparr>idx_tree := t\<rparr>)
                                       | (None, t) \<Rightarrow>
                                           set_status (Txt (''Loaded '' @ str_nat n @ '' indexes''))
                                             (st3\<lparr>idx_tree := t\<rparr>))))))))"

definition add_index :: "server \<Rightarrow> string \<Rightarrow> string \<Rightarrow> browse \<Rightarrow> browse" where
  \<comment> \<open>\<open>name\<close> and \<open>fields_input\<close> are the two entries of the dialog (both empty when cancelled)\<close>
  "add_index srv name fields_input st =
     (if name = [] \<or> fields_input = [] then st
      else
        let st1 = set_status (Txt (''Creating index '' @ quoted name @ ''...'')) st
        in case send srv \<lparr>req_verb = POST,
                            req_url = base_url st @ ''/'' @ db st @ ''/_index'',
                            req_json = Some (index_payload name fields_input),
                            req_auth = auth st\<rparr> st1 of
             (resp, st2) \<Rightarrow>
               (case raise_for_status resp of
                  Inl e \<Rightarrow>
                    show_dialog (ShowError ''Error'' (TxtExn (''Failed to create index:'' @ nl) e))
                      (set_status (TxtExn50 ''Failed to create index: '' e) st2)
                | Inr _ \<Rightarrow>
                    set_status (Txt (''Created index '' @ quoted name)) (load_indexes srv st2)))"

definition ddoc_path :: "string \<Rightarrow> string" where
  \<comment> \<open>\<open>ddoc if ddoc.startswith('_design/') else f"_design/{ddoc}"\<close>\<close>
  "ddoc_path ddoc = (if startswith ddoc ''_design/'' then ddoc else ''_design/'' @ ddoc)"

definition delete_index :: "server \<Rightarrow> bool \<Rightarrow> browse \<Rightarrow> browse outcome" where
  \<comment> \<open>\<open>confirm\<close> is the operator's answer to the question. A row of the table always has
      its three cells, so the \<open>len(idx) < 2\<close> branch is never taken.\<close>
  "delete_index srv confirm st =
     (let selected = selection (idx_tree st) in
      if selected = [] then
        Returned (show_dialog (ShowInfo ''Info'' (Txt ''Select an index to delete.'')) st)
      else
        case item_values (idx_tree st) (hd selected) of
          None \<Rightarrow> Uncaught TclError st
        | Some (ddoc, name, fields_str) \<Rightarrow>
            let st1 = show_dialog (AskYesNo ''Confirm''
                        (Txt (''Delete index '' @ quoted (py_str name) @ ''?''))) st
            in if \<not> confirm then Returned st1
               else
                 let st2 = set_status (Txt (''Deleting index '' @ quoted (py_str name) @ ''...'')) st1;
                     url = base_url st @ ''/'' @ db st @ ''/_index/'' @ ddoc_path ddoc
                             @ ''/json/'' @ py_str name
                 in case send srv \<lparr>req_verb = DELETE, req_url = url,
                                     req_json = None, req_auth = auth st\<rparr> st2 of
                      (resp, st3) \<Rightarrow>
                        (case raise_for_status resp of
                           Inl e \<Rightarrow>
                             Returned (show_dialog (ShowError ''Error''
                                          (TxtExn (''Failed to delete index:'' @ nl) e))
                                        (set_status (TxtExn50 ''Failed to delete index: '' e) st3))
                         | Inr _ \<Rightarrow>
                             Returned (set_status (Txt (''Deleted index '' @ quoted (py_str name)))
                                        (load_indexes srv st3))))"

definition doc_row :: "json \<Rightarrow> exn + (string \<times> json \<times> json) option" where
  \<comment> \<open>one \<open>row\<close> of \<open>_all_docs\<close>: \<open>None\<close> for a design document (\<open>continue\<close>), else
      \<open>(doc_id, rev, doc)\<close>\<close>
  "doc_row row =
     (case py_get row ''id'' (JStr []) of
        Inl e \<Rightarrow> Inl e
      | Inr (JStr doc_id) \<Rightarrow>
          if startswith doc_id ''_design/'' then Inr None
          else
            (case py_get row ''value'' (JObj []) of
               Inl e \<Rightarrow> Inl e
             | Inr val \<Rightarrow>
                 (case py_get val ''rev'' (JStr []) of
                    Inl e \<Rightarrow> Inl e
                  | Inr revn \<Rightarrow>
                      (case py_get row ''doc'' (JObj []) of
                         Inl e \<Rightarrow> Inl e
                       | Inr doc \<Rightarrow> Inr (Some (doc_id, revn, doc)))))
      | Inr _ \<Rightarrow> Inl AttributeError)"

fun docs_loop :: "json list \<Rightarrow> browse \<Rightarrow> exn option \<times> browse" where
  \<comment> \<open>\<open>for row in data.get('rows', [])\<close>: the state when the loop ends, and the exception
      that ended it\<close>
  "docs_loop [] st = (None, st)"
| "docs_loop (row # rest) st =
     (case doc_row row of
        Inl e \<Rightarrow> (Some e, st)
      | Inr None \<Rightarrow> docs_loop rest st
      | Inr (Some (doc_id, revn, doc)) \<Rightarrow>
          docs_loop rest (st\<lparr>docs := dict_set (docs st) doc_id doc,
                               doc_tree := tv_insert (doc_tree st) (doc_id, revn)\<rparr>))"

definition load_docs_failed :: "exn \<Rightarrow> browse \<Rightarrow> browse" where
  "load_docs_failed e st =
     show_dialog (ShowError ''Document Loading Error'' (TxtExn (''Failed to load documents:'' @ nl) e))
       (set_status (TxtExn50 ''Error loading documents: '' e) st)"

definition load_docs :: "server \<Rightarrow> browse \<Rightarrow> browse" where
  "load_docs srv st =
     (let st1 = set_status (Txt ''Loading documents...'') st;
          url = base_url st @ ''/'' @ db st @ ''/_all_docs?include_docs=true''
      in case send srv \<lparr>req_verb = GET, req_url = url, req_json = None, req_auth = auth st\<rparr> st1 of
           (NoResponse, st2) \<Rightarrow> load_docs_failed ConnectionError st2
         | (Response status body, st2) \<Rightarrow>
             (case resp_json body of
                Inl e \<Rightarrow> load_docs_failed e st2
              | Inr data \<Rightarrow>
                  let st3 = st2\<lparr>doc_tree := tv_clear (doc_tree st2), docs := []\<rparr> in
                  (case py_get data ''rows'' (JArr []) of
                     Inl e \<Rightarrow> load_docs_failed e st3
                   | Inr rows_v \<Rightarrow>
                       (case py_iter rows_v of
                          Inl e \<Rightarrow> load_docs_failed e st3
                        | Inr xs \<Rightarrow>
                            (case docs_loop xs st3 of
                               (Some e, st4) \<Rightarrow> load_docs_failed e st4
                             | (None, st4) \<Rightarrow>
                                 set_status (Txt (''Loaded '' @ str_nat (length (docs st4))
                                                  @ '' documents'')) st4)))))"











definition save_failed :: "exn \<Rightarrow> browse \<Rightarrow> browse" where
  \<comment> \<open>the \<open>except Exception\<close> clause of \<open>save_doc\<close>\<close>
  "save_failed e st =
     show_dialog (ShowError ''Save Error'' (TxtExn (''Failed to save document:'' @ nl) e))
       (set_status (TxtExn50 ''Failed to save document: '' e) st)"



section \<open>States used as examples\<close>

definition tree_ok :: "('v::type) treeview \<Rightarrow> bool" where
  \<comment> \<open>what the widget maintains: item identifiers are distinct, and the selection is a
      duplicate-free list of items of the table\<close>
  "tree_ok t = (distinct (get_children t) \<and> distinct (selection t)
                 \<and> list_all (\<lambda>i. i \<in> set (get_children t)) (selection t))"

definition example_float :: "string \<Rightarrow> pyfloat" where
  \<comment> \<open>\<open>float(t)\<close> as far as the examples need it: \<open>float('2.50')\<close> is the float \<open>2.5\<close>;
      a literal other than \<open>2.50\<close> is taken for the \<open>repr\<close> of its float, which it is
      for \<open>2.5\<close> and \<open>1.5\<close>\<close>
  "example_float t = (if t = ''2.50'' then Finite ''2.5'' else Finite t)"

definition example_python :: python where
  \<comment> \<open>an interpreter with the limits CPython 3.11 has by default, in a handler that has
      992 calls left\<close>
  "example_python =
     \<lparr>nesting_limit = 992, encoder_limit = 992, compact_limit = 992, max_str_digits = 4300,
      float_of = example_float, float_int = (\<lambda>r. None), body_error = (\<lambda>doc. None)\<rparr>"

definition example_manager :: manager where
  "example_manager =
     \<lparr>status_var = Txt ''Connected'', dialogs = [], http_log = [],
      url_var = ''http://127.0.0.1:5984/'', user_var = ''admin'', pass_var = ''secret'',
      tree = \<lparr>rows = [(0, ''alpha''), (1, ''beta''), (2, ''gamma'')], selection = [1], fresh = 3\<rparr>\<rparr>"

definition example_browse :: browse where
  \<open>example_browse =
     \<lparr>status_var = Txt ''Ready'', dialogs = [], http_log = [],
      db = ''alpha'', base_url = ''http://127.0.0.1:5984'', auth = (''admin'', ''secret''),
      docs = [(''d1'', JObj [(''_id'', JStr ''d1''), (''_rev'', JStr ''1-a''), (''n'', JInt 1)])],
      current_doc = Some ''d1'',
      idx_tree = \<lparr>rows = [(0, (''foo'', JStr ''bar'', ''x:asc''))], selection = [0], fresh = 1\<rparr>,
      doc_tree = \<lparr>rows = [(0, (''d1'', JStr ''1-a''))], selection = [0], fresh = 1\<rparr>,
      editor = ''{"n": 2.50}'', search_var = []\<rparr>\<close>



definition accept_put_only :: server where
  \<comment> \<open>a server that creates what is \<open>PUT\<close> and is unreachable for everything else\<close>
  "accept_put_only log r = (if req_verb r = PUT then Response 201 None else NoResponse)"

definition foo_bar_index :: json where
  \<comment> \<open>the value of \<open>{"indexes":[{"ddoc":"_design/foo","name":"bar","def":{"fields":[{"x":"asc"}]}}]}\<close>\<close>
  "foo_bar_index =
     JObj [(''indexes'', JArr [JObj [(''ddoc'', JStr ''_design/foo''), (''name'', JStr ''bar''),
             (''def'', JObj [(''fields'', JArr [JObj [(''x'', JStr ''asc'')]])])]])]"

definition accept_all :: server where
  "accept_all log r = Response 200 (Some (JObj [(''ok'', JBool True)]))"





definition delete_requests :: "manager \<Rightarrow> nat list \<Rightarrow> request list" where
  \<comment> \<open>one \<open>DELETE\<close> of \<open>{url}/{db}\<close> for each of the items, in their order\<close>
  "delete_requests st items =
     map (\<lambda>i. \<lparr>req_verb = DELETE,
                 req_url = manager_url st @ ''/'' @ the (item_values (tree st) i),
                 req_json = None, req_auth = manager_auth st\<rparr>) items"

fun answers_ok :: "server \<Rightarrow> request list \<Rightarrow> request list \<Rightarrow> bool list" where
  \<comment> \<open>for requests sent one after the other from the log \<open>log\<close>: whether each got an
      answer that \<open>raise_for_status\<close> accepts\<close>
  "answers_ok srv log [] = []"
| "answers_ok srv log (r # rs) =
     (case raise_for_status (srv log r) of Inl _ \<Rightarrow> False | Inr _ \<Rightarrow> True)
       # answers_ok srv (log @ [r]) rs"

definition deleted_items :: "nat list \<Rightarrow> bool list \<Rightarrow> nat list" where
  \<comment> \<open>the items whose request succeeded\<close>
  "deleted_items items oks = map fst (filter snd (zip items oks))"

definition attempted_once :: "server \<Rightarrow> manager \<Rightarrow> nat list \<Rightarrow> manager \<Rightarrow> bool" where
  \<comment> \<open>what \<open>delete_selected\<close> and \<open>delete_all\<close> leave behind from the state \<open>st\<close> for the
      chosen \<open>items\<close>: one request for each item, in order, added to the log; the rows
      whose request succeeded removed, the others kept; the two counts in the status line\<close>
  "attempted_once srv st items st' =
     (let reqs = delete_requests st items;
          oks = answers_ok srv (http_log st) reqs;
          success_count = length (filter (\<lambda>b. b) oks);
          fail_count = length (filter Not oks)
      in http_log st' = http_log st @ reqs
         \<and> length reqs = length items
         \<and> rows (tree st') = filter (\<lambda>(i, _). i \<notin> set (deleted_items items oks)) (rows (tree st))
         \<and> status_var st' = Txt (''Deleted '' @ str_nat success_count
                                   @ '' database(s). Failed: '' @ str_nat fail_count)
         \<and> success_count + fail_count = length items)"

definition beta_missing :: server where
  \<comment> \<open>a server that has every database but \<open>beta\<close>\<close>
  "beta_missing log r =
     (if req_url r = ''http://127.0.0.1:5984/beta''
      then Response 404 (Some (JObj [(''error'', JStr ''not_found'')]))
      else Response 200 (Some (JObj [(''ok'', JBool True)])))"

definition row_id :: "json \<Rightarrow> string" where
  \<comment> \<open>the \<open>id\<close> of a row of \<open>_all_docs\<close> (empty when there is none)\<close>
  "row_id row = (case py_get row ''id'' (JStr []) of Inr (JStr s) \<Rightarrow> s | _ \<Rightarrow> [])"

definition row_rev :: "json \<Rightarrow> json" where
  \<comment> \<open>the \<open>value.rev\<close> of a row of \<open>_all_docs\<close> (the empty string when there is none)\<close>
  "row_rev row =
     (case py_get row ''value'' (JObj []) of
        Inr val \<Rightarrow> (case py_get val ''rev'' (JStr []) of Inr r \<Rightarrow> r | _ \<Rightarrow> JStr [])
      | _ \<Rightarrow> JStr [])"

definition is_design :: "string \<Rightarrow> bool" where
  "is_design doc_id = startswith doc_id ''_design/''"

definition row_ok :: "json \<Rightarrow> bool" where
  \<comment> \<open>a row as CouchDB sends it: an object whose \<open>id\<close>, if any, is a string and whose
      \<open>value\<close>, if any, is an object\<close>
  "row_ok row = (case row of
       JObj kvs \<Rightarrow>
         (case map_of kvs ''id'' of Some (JStr _) \<Rightarrow> True | None \<Rightarrow> True | _ \<Rightarrow> False)
         \<and> (case map_of kvs ''value'' of Some (JObj _) \<Rightarrow> True | None \<Rightarrow> True | _ \<Rightarrow> False)
     | _ \<Rightarrow> False)"

definition all_docs_request :: "browse \<Rightarrow> request" where
  "all_docs_request st =
     \<lparr>req_verb = GET, req_url = base_url st @ ''/'' @ db st @ ''/_all_docs?include_docs=true'',
      req_json = None, req_auth = auth st\<rparr>"

definition no_design :: "browse \<Rightarrow> bool" where
  \<comment> \<open>no id of the document list or of the cache starts with \<open>_design/\<close>\<close>
  "no_design st =
     (list_all (\<lambda>(i, doc_id, r). \<not> is_design doc_id) (rows (doc_tree st))
      \<and> list_all (\<lambda>(doc_id, doc). \<not> is_design doc_id) (docs st))"

definition design_and_d2 :: "json list" where
  \<comment> \<open>two rows of \<open>_all_docs\<close>: a design document and one other document\<close>
  "design_and_d2 =
     [JObj [(''id'', JStr ''_design/by_x''), (''key'', JStr ''_design/by_x''),
            (''value'', JObj [(''rev'', JStr ''1-d'')]),
            (''doc'', JObj [(''_id'', JStr ''_design/by_x''), (''_rev'', JStr ''1-d'')])],
      JObj [(''id'', JStr ''d2''), (''key'', JStr ''d2''),
            (''value'', JObj [(''rev'', JStr ''3-c'')]),
            (''doc'', JObj [(''_id'', JStr ''d2''), (''_rev'', JStr ''3-c''), (''n'', JInt 7)])]]"

definition two_rows :: json where
  "two_rows = JObj [(''total_rows'', JInt 2), (''offset'', JInt 0), (''rows'', JArr design_and_d2)]"

definition two_rows_server :: server where
  "two_rows_server log r = Response 200 (Some two_rows)"


definition null_doc_server :: server where
  \<comment> \<open>a server whose \<open>_all_docs\<close> has one row, of a deleted document: \<open>"doc": null\<close>\<close>
  "null_doc_server log r =
     Response 200 (Some (JObj [(''total_rows'', JInt 1), (''offset'', JInt 0),
       (''rows'', JArr [JObj [(''id'', JStr ''d3''), (''key'', JStr ''d3''),
                              (''value'', JObj [(''rev'', JStr ''2-b''), (''deleted'', JBool True)]),
                              (''doc'', JNull)]])]))"

definition null_body_browse :: browse where
  \<comment> \<open>the browse window after \<open>load_docs\<close> from that server\<close>
  "null_body_browse = load_docs null_doc_server example_browse"

section \<open>Index creation with no fields\<close>

lemma item_values_in: "i \<in> set (get_children t) \<Longrightarrow> \<exists>v. item_values t i = Some v"
  unfolding get_children_def item_values_def
  by (cases "map_of (rows t) i") (simp_all add: map_of_eq_None_iff)

lemma create_index_no_fields:
  "create_index srv name [] st =
     (if selection (tree st) = [] \<or> length (selection (tree st)) \<noteq> 1
      then Returned (show_dialog (ShowInfo ''Info'' (Txt ''Select a single database to create an index.'')) st)
      else case item_values (tree st) (hd (selection (tree st))) of
             None \<Rightarrow> Uncaught TclError st | Some d \<Rightarrow> Returned st)"
  by (simp add: create_index_def Let_def split: option.split)

lemma http_log_show_dialog [simp]: "http_log (show_dialog d w) = http_log w"
  by (simp add: show_dialog_def)

lemma http_log_set_status [simp]: "http_log (set_status m w) = http_log w"
  by (simp add: set_status_def)

text \<open>
  C4. When the fields entry of the dialog is empty, neither \<open>create_index\<close> of the main
  window nor \<open>add_index\<close> of the browse window sends a request: the log of requests is
  the one before the call. \<open>add_index\<close> returns with the window as it was;
  \<open>create_index\<close> returns (after the notice about the selection, when no single
  database is selected) whenever the selection is one the widget can hold.
\<close>

theorem create_index_empty_fields:
  "(\<exists>st'. (create_index srv name [] st = Returned st' \<or> create_index srv name [] st = Uncaught TclError st')
          \<and> http_log st' = http_log st)
   \<and> (tree_ok (tree st) \<longrightarrow> (\<exists>st'. create_index srv name [] st = Returned st' \<and> http_log st' = http_log st))
   \<and> add_index srv name [] bst = bst"
proof -
  have a: "\<exists>st'. (create_index srv name [] st = Returned st' \<or> create_index srv name [] st = Uncaught TclError st')
          \<and> http_log st' = http_log st"
    unfolding create_index_no_fields
    by (cases "item_values (tree st) (hd (selection (tree st)))") simp_all
  have b: "\<exists>st'. create_index srv name [] st = Returned st' \<and> http_log st' = http_log st" if "tree_ok (tree st)"
  proof (cases "selection (tree st) = [] \<or> length (selection (tree st)) \<noteq> 1")
    case True
    then show ?thesis unfolding create_index_no_fields by simp
  next
    case False
    then have "hd (selection (tree st)) \<in> set (get_children (tree st))"
      using that by (cases "selection (tree st)") (simp_all add: tree_ok_def)
    then obtain v where "item_values (tree st) (hd (selection (tree st))) = Some v"
      using item_values_in by blast
    with False show ?thesis unfolding create_index_no_fields by simp
  qed
  have c: "add_index srv name [] bst = bst" by (simp add: add_index_def)
  show ?thesis by (rule conjI[OF a conjI[OF impI[OF b] c]])
qed

theorem create_index_empty_fields_witness:
  "tree_ok (tree example_manager)
   \<and> (\<exists>st'. create_index (\<lambda>log r. NoResponse) ''by_x'' [] example_manager = Returned st'
            \<and> http_log st' = http_log example_manager)"
proof -
  have h: "tree_ok (tree example_manager)"
    by (simp add: tree_ok_def example_manager_def get_children_def)
  show ?thesis
    using h create_index_empty_fields [of "\<lambda>log r. NoResponse" "''by_x''" example_manager] by simp
qed

section \<open>Malformed JSON in the editor\<close>






section \<open>The default index of a new database\<close>

text \<open>
  C9. When the \<open>PUT\<close> that creates the database succeeds, \<open>add_db\<close> sends one more
  request, a \<open>POST\<close> to \<open>{db}/_index\<close> with the payload
  \<open>{"index": {"fields": ["_id"]}, "name": "{db}_idx"}\<close>. Whatever the server answers to
  it, also no answer at all, \<open>add_db\<close> returns with no dialog added and the status line
  of a success.
\<close>

theorem add_db_default_index:
  assumes "name \<noteq> []"
      and "raise_for_status (srv (http_log st)
             \<lparr>req_verb = PUT, req_url = manager_url st @ ''/'' @ name,
              req_json = None, req_auth = manager_auth st\<rparr>) = Inr r"
  shows "\<exists>st'. add_db srv (Some name) st = Returned st'
           \<and> http_log st' = http_log st @
                [\<lparr>req_verb = PUT, req_url = manager_url st @ ''/'' @ name,
                  req_json = None, req_auth = manager_auth st\<rparr>,
                 \<lparr>req_verb = POST, req_url = manager_url st @ ''/'' @ name @ ''/_index'',
                  req_json = Some (JObj [(''index'', JObj [(''fields'', JArr [JStr ''_id''])]),
                                         (''name'', JStr (name @ ''_idx''))]),
                  req_auth = manager_auth st\<rparr>]
           \<and> dialogs st' = dialogs st
           \<and> status_var st' = Txt (''Created database '' @ quoted name @ '' with default index'')
           \<and> map snd (rows (tree st')) = map snd (rows (tree st)) @ [name]"
  using assms
  by (simp add: add_db_def send_def create_default_index_def default_index_payload_def Let_def
        set_status_def manager_url_def manager_auth_def tv_insert_def)

theorem add_db_default_index_witness:
  "''delta'' \<noteq> []
   \<and> raise_for_status (accept_put_only (http_log example_manager)
             \<lparr>req_verb = PUT, req_url = manager_url example_manager @ ''/'' @ ''delta'',
              req_json = None, req_auth = manager_auth example_manager\<rparr>) = Inr (201, None)
   \<and> (\<exists>st'. add_db accept_put_only (Some ''delta'') example_manager = Returned st'
          \<and> length (http_log st') = 2 \<and> dialogs st' = [])"
proof -
  have n: "''delta'' \<noteq> []" by simp
  have h: "raise_for_status (accept_put_only (http_log example_manager)
             \<lparr>req_verb = PUT, req_url = manager_url example_manager @ ''/'' @ ''delta'',
              req_json = None, req_auth = manager_auth example_manager\<rparr>) = Inr (201, None)"
    by (simp add: accept_put_only_def raise_for_status_def)
  have e: "http_log example_manager = []" "dialogs example_manager = []"
    by (simp_all add: example_manager_def)
  obtain st' where s: "add_db accept_put_only (Some ''delta'') example_manager = Returned st'"
      "length (http_log st') = 2" "dialogs st' = []"
    using add_db_default_index [where name="''delta''" and srv=accept_put_only and st=example_manager, OF n h] e by auto
  have "\<exists>st'. add_db accept_put_only (Some ''delta'') example_manager = Returned st'
          \<and> length (http_log st') = 2 \<and> dialogs st' = []"
    using s by (intro exI[of _ st']) simp
  with n h show ?thesis by blast
qed

section \<open>The table of indexes\<close>

lemma loads_foo_bar_index:
  \<open>loads example_python ''{"indexes":[{"ddoc":"_design/foo","name":"bar","def":{"fields":[{"x":"asc"}]}}]}''
     = Parsed (widen foo_bar_index)\<close>
  by code_simp

lemma narrow_foo_bar_index: "narrow (widen foo_bar_index) = Some foo_bar_index"
  by code_simp

lemma index_row_foo_bar:
  "index_row (JObj [(''ddoc'', JStr ''_design/foo''), (''name'', JStr ''bar''),
             (''def'', JObj [(''fields'', JArr [JObj [(''x'', JStr ''asc'')]])])])
     = Inr (''foo'', JStr ''bar'', ''x:asc'')"
  by code_simp

lemma load_indexes_foo_bar:
  assumes "srv (http_log st)
             \<lparr>req_verb = GET, req_url = base_url st @ ''/'' @ db st @ ''/_index'',
              req_json = None, req_auth = auth st\<rparr> = Response 200 (Some foo_bar_index)"
  shows "map snd (rows (idx_tree (load_indexes srv st))) = [(''foo'', JStr ''bar'', ''x:asc'')]"
  using assms
  by (simp add: load_indexes_def send_def Let_def set_status_def raise_for_status_def resp_json_def
        foo_bar_index_def py_get_def py_len_def py_iter_def tv_clear_def tv_insert_def
        index_row_foo_bar)

text \<open>
  C5. When the server answers the request for the indexes with
  \<open>{"indexes":[{"ddoc":"_design/foo","name":"bar","def":{"fields":[{"x":"asc"}]}}]}\<close>,
  the table of indexes holds exactly one row after \<open>load_indexes\<close>: design document
  \<open>foo\<close>, name \<open>bar\<close>, fields \<open>x:asc\<close>.
\<close>

theorem load_indexes_row:
  assumes \<open>loads example_python ''{"indexes":[{"ddoc":"_design/foo","name":"bar","def":{"fields":[{"x":"asc"}]}}]}''
             = Parsed decoded\<close>
      and "narrow decoded = Some data"
      and "srv (http_log st)
             \<lparr>req_verb = GET, req_url = base_url st @ ''/'' @ db st @ ''/_index'',
              req_json = None, req_auth = auth st\<rparr> = Response 200 (Some data)"
  shows "map snd (rows (idx_tree (load_indexes srv st))) = [(''foo'', JStr ''bar'', ''x:asc'')]"
proof -
  from assms(1) have "decoded = widen foo_bar_index"
    by (simp add: loads_foo_bar_index)
  with assms(2) have "data = foo_bar_index"
    by (simp add: narrow_foo_bar_index)
  with assms(3) show ?thesis
    by (simp add: load_indexes_foo_bar)
qed

theorem load_indexes_row_witness:
  \<open>loads example_python ''{"indexes":[{"ddoc":"_design/foo","name":"bar","def":{"fields":[{"x":"asc"}]}}]}''
     = Parsed (widen foo_bar_index)
   \<and> narrow (widen foo_bar_index) = Some foo_bar_index
   \<and> (\<lambda>log r. Response 200 (Some foo_bar_index)) (http_log example_browse)
             \<lparr>req_verb = GET, req_url = base_url example_browse @ ''/'' @ db example_browse @ ''/_index'',
              req_json = None, req_auth = auth example_browse\<rparr> = Response 200 (Some foo_bar_index)
   \<and> map snd (rows (idx_tree (load_indexes (\<lambda>log r. Response 200 (Some foo_bar_index)) example_browse)))
       = [(''foo'', JStr ''bar'', ''x:asc'')]\<close>
  using load_indexes_row [where data = foo_bar_index and decoded = "widen foo_bar_index"
          and srv = "\<lambda>log r. Response 200 (Some foo_bar_index)" and st = example_browse]
        loads_foo_bar_index narrow_foo_bar_index
  by simp

lemma startswith_ddoc_path: "startswith (ddoc_path d) ''_design/''"
  by (simp add: ddoc_path_def startswith_def)

lemma http_log_load_indexes_failed [simp]: "http_log (load_indexes_failed e w) = http_log w"
  by (simp add: load_indexes_failed_def)

lemma http_log_load_indexes:
  "http_log (load_indexes srv w) = http_log w @
     [\<lparr>req_verb = GET, req_url = base_url w @ ''/'' @ db w @ ''/_index'',
       req_json = None, req_auth = auth w\<rparr>]"
  by (simp add: load_indexes_def Let_def send_def split: sum.split option.split prod.split)

text \<open>
  C6. For a selected row with design document \<open>d\<close> and name \<open>n\<close>, once the operator
  confirms, the first request of \<open>delete_index\<close> is a \<open>DELETE\<close> of
  \<open>{db}/_index/{p}/json/{n}\<close> under the base URL, where \<open>p\<close> is \<open>d\<close> when \<open>d\<close>
  starts with \<open>_design/\<close> and \<open>_design/\<close> followed by \<open>d\<close> otherwise; \<open>p\<close> always
  starts with \<open>_design/\<close>.
\<close>

theorem delete_index_url:
  assumes "selection (idx_tree st) = i # others"
      and "item_values (idx_tree st) i = Some (d, n, fs)"
  shows "\<exists>st' p later. delete_index srv True st = Returned st'
           \<and> http_log st' = http_log st @
                \<lparr>req_verb = DELETE,
                  req_url = base_url st @ ''/'' @ db st @ ''/_index/'' @ p @ ''/json/'' @ py_str n,
                  req_json = None, req_auth = auth st\<rparr> # later
           \<and> p = (if startswith d ''_design/'' then d else ''_design/'' @ d)
           \<and> startswith p ''_design/''"
proof -
  let ?r = "\<lparr>req_verb = DELETE,
              req_url = base_url st @ ''/'' @ db st @ ''/_index/'' @ ddoc_path d @ ''/json/'' @ py_str n,
              req_json = None, req_auth = auth st\<rparr>"
  have a: "\<exists>st' later. delete_index srv True st = Returned st' \<and> http_log st' = http_log st @ ?r # later"
  proof (cases "raise_for_status (srv (http_log st) ?r)")
    case (Inl e)
    with assms show ?thesis
      by (simp add: delete_index_def Let_def send_def show_dialog_def set_status_def)
  next
    case (Inr x)
    with assms show ?thesis
      by (simp add: delete_index_def Let_def send_def show_dialog_def http_log_load_indexes)
  qed
  then obtain st' later where b: "delete_index srv True st = Returned st'"
      "http_log st' = http_log st @ ?r # later" by blast
  have c: "ddoc_path d = (if startswith d ''_design/'' then d else ''_design/'' @ d)"
    by (simp add: ddoc_path_def)
  show ?thesis
    using b c startswith_ddoc_path [of d]
    by (intro exI[of _ st'] exI[of _ "ddoc_path d"] exI[of _ later]) simp
qed

theorem delete_index_url_witness:
  "selection (idx_tree example_browse) = 0 # []
   \<and> item_values (idx_tree example_browse) 0 = Some (''foo'', JStr ''bar'', ''x:asc'')
   \<and> (\<exists>st' later. delete_index accept_all True example_browse = Returned st'
         \<and> http_log st' =
              \<lparr>req_verb = DELETE,
                req_url = ''http://127.0.0.1:5984/alpha/_index/_design/foo/json/bar'',
                req_json = None, req_auth = (''admin'', ''secret'')\<rparr> # later)"
proof -
  have s: "selection (idx_tree example_browse) = 0 # []"
    by (simp add: example_browse_def)
  have v: "item_values (idx_tree example_browse) 0 = Some (''foo'', JStr ''bar'', ''x:asc'')"
    by (simp add: example_browse_def item_values_def)
  have e: "http_log example_browse = []" "base_url example_browse = ''http://127.0.0.1:5984''"
      "db example_browse = ''alpha''" "auth example_browse = (''admin'', ''secret'')"
    by (simp_all add: example_browse_def)
  obtain st' p later where
    r: "delete_index accept_all True example_browse = Returned st'"
       "http_log st' = http_log example_browse @
          \<lparr>req_verb = DELETE,
            req_url = base_url example_browse @ ''/'' @ db example_browse @ ''/_index/'' @ p
                        @ ''/json/'' @ py_str (JStr ''bar''),
            req_json = None, req_auth = auth example_browse\<rparr> # later"
       "p = (if startswith ''foo'' ''_design/'' then ''foo'' else ''_design/'' @ ''foo'')"
    using delete_index_url [where srv = accept_all, OF s v] by blast
  have "\<exists>st' later. delete_index accept_all True example_browse = Returned st'
         \<and> http_log st' =
              \<lparr>req_verb = DELETE,
                req_url = ''http://127.0.0.1:5984/alpha/_index/_design/foo/json/bar'',
                req_json = None, req_auth = (''admin'', ''secret'')\<rparr> # later"
    using r e by (intro exI[of _ st'] exI[of _ later]) (simp add: startswith_def py_str_def)
  with s v show ?thesis by blast
qed

section \<open>Saving a document the server rejects\<close>

lemma http_log_save_failed [simp]: "http_log (save_failed x w) = http_log w"
  by (simp add: save_failed_def)









section \<open>Deleting several databases\<close>

lemma map_of_filter_other:
  "k \<noteq> i \<Longrightarrow> map_of (filter (\<lambda>(j, _). j \<noteq> i) xs) k = map_of xs k"
  by (induction xs) auto

lemma delete_requests_cong:
  assumes "\<And>k. k \<in> set items \<Longrightarrow> item_values (tree st2) k = item_values (tree st) k"
      and "manager_url st2 = manager_url st" and "manager_auth st2 = manager_auth st"
  shows "delete_requests st2 items = delete_requests st items"
  using assms by (simp add: delete_requests_def)

lemma deleted_items_Cons:
  "deleted_items (i # items) (b # oks) =
     (if b then i # deleted_items items oks else deleted_items items oks)"
  by (simp add: deleted_items_def)

lemma filter_rows_twice:
  "filter (\<lambda>(k, _). k \<notin> D) (filter (\<lambda>(j, _). j \<noteq> i) xs)
     = filter (\<lambda>(k, _). k \<notin> insert i D) xs"
  by (induction xs) auto

lemma delete_loop_failed:
  assumes "item_values (tree st) i = Some d"
      and "raise_for_status (srv (http_log st)
             \<lparr>req_verb = DELETE, req_url = url @ ''/'' @ d, req_json = None, req_auth = au\<rparr>) = Inl e"
  shows "delete_loop srv url au (i # items) sc fc st =
           delete_loop srv url au items sc (Suc fc)
             (st\<lparr>http_log := http_log st @
                [\<lparr>req_verb = DELETE, req_url = url @ ''/'' @ d, req_json = None, req_auth = au\<rparr>]\<rparr>)"
  using assms by (simp add: send_def)

lemma delete_loop_succeeded:
  assumes "item_values (tree st) i = Some d"
      and "raise_for_status (srv (http_log st)
             \<lparr>req_verb = DELETE, req_url = url @ ''/'' @ d, req_json = None, req_auth = au\<rparr>) = Inr x"
      and "i \<in> set (get_children (tree st))"
  shows "delete_loop srv url au (i # items) sc fc st =
           delete_loop srv url au items (Suc sc) fc
             (st\<lparr>http_log := http_log st @
                [\<lparr>req_verb = DELETE, req_url = url @ ''/'' @ d, req_json = None, req_auth = au\<rparr>],
                tree := (tree st)\<lparr>rows := filter (\<lambda>(j, _). j \<noteq> i) (rows (tree st)),
                          selection := filter (\<lambda>j. j \<noteq> i) (selection (tree st))\<rparr>\<rparr>)"
  using assms by (simp add: send_def tv_delete_def get_children_def)

lemma delete_loop_spec:
  assumes "distinct items" and "set items \<subseteq> set (get_children (tree st))"
      and "url = manager_url st" and "au = manager_auth st"
  shows "\<exists>st'. delete_loop srv url au items sc fc st =
            Inr (sc + length (filter (\<lambda>b. b) (answers_ok srv (http_log st) (delete_requests st items))),
                 fc + length (filter Not (answers_ok srv (http_log st) (delete_requests st items))),
                 st')
          \<and> http_log st' = http_log st @ delete_requests st items
          \<and> rows (tree st') =
               filter (\<lambda>(i, _). i \<notin> set (deleted_items items
                          (answers_ok srv (http_log st) (delete_requests st items)))) (rows (tree st))
          \<and> status_var st' = status_var st \<and> dialogs st' = dialogs st"
  using assms
proof (induction items arbitrary: st sc fc)
  case Nil
  then show ?case by (simp add: delete_requests_def deleted_items_def)
next
  case (Cons i items)
  from Cons.prems obtain d where d: "item_values (tree st) i = Some d"
    using item_values_in by fastforce
  define r where "r = \<lparr>req_verb = DELETE, req_url = url @ ''/'' @ d, req_json = None, req_auth = au\<rparr>"
  have reqs: "delete_requests st (i # items) = r # delete_requests st items"
    using d Cons.prems(3,4) by (simp add: delete_requests_def r_def)
  show ?case
  proof (cases "raise_for_status (srv (http_log st) r)")
    case (Inl e)
    define st1 where "st1 = st\<lparr>http_log := http_log st @ [r]\<rparr>"
    have step: "delete_loop srv url au (i # items) sc fc st = delete_loop srv url au items sc (Suc fc) st1"
      using delete_loop_failed [where srv = srv and url = url and au = au, OF d Inl [unfolded r_def]] by (simp add: st1_def r_def)
    have f: "tree st1 = tree st" "http_log st1 = http_log st @ [r]" "status_var st1 = status_var st"
        "dialogs st1 = dialogs st" "manager_url st1 = manager_url st" "manager_auth st1 = manager_auth st"
      by (simp_all add: st1_def manager_url_def manager_auth_def)
    have same: "delete_requests st1 items = delete_requests st items"
      by (rule delete_requests_cong) (simp_all add: f)
    have pre: "distinct items" "set items \<subseteq> set (get_children (tree st1))"
        "url = manager_url st1" "au = manager_auth st1"
      using Cons.prems by (simp_all add: f)
    from Cons.IH [OF pre, of sc "Suc fc"] obtain st' where
      ih: "delete_loop srv url au items sc (Suc fc) st1 =
            Inr (sc + length (filter (\<lambda>b. b) (answers_ok srv (http_log st1) (delete_requests st1 items))),
                 Suc fc + length (filter Not (answers_ok srv (http_log st1) (delete_requests st1 items))),
                 st')"
          "http_log st' = http_log st1 @ delete_requests st1 items"
          "rows (tree st') =
               filter (\<lambda>(i, _). i \<notin> set (deleted_items items
                          (answers_ok srv (http_log st1) (delete_requests st1 items)))) (rows (tree st1))"
          "status_var st' = status_var st1" "dialogs st' = dialogs st1"
      by blast
    show ?thesis
      using ih Inl
      by (intro exI[of _ st']) (simp add: step reqs same f deleted_items_Cons del: delete_loop.simps)
  next
    case (Inr x)
    from Cons.prems have mem: "i \<in> set (get_children (tree st))" by simp
    define st2 where "st2 = st\<lparr>http_log := http_log st @ [r],
                tree := (tree st)\<lparr>rows := filter (\<lambda>(j, _). j \<noteq> i) (rows (tree st)),
                          selection := filter (\<lambda>j. j \<noteq> i) (selection (tree st))\<rparr>\<rparr>"
    have step: "delete_loop srv url au (i # items) sc fc st = delete_loop srv url au items (Suc sc) fc st2"
      using delete_loop_succeeded [where srv = srv and url = url and au = au, OF d Inr [unfolded r_def] mem] by (simp add: st2_def r_def)
    have f: "rows (tree st2) = filter (\<lambda>(j, _). j \<noteq> i) (rows (tree st))"
        "http_log st2 = http_log st @ [r]" "status_var st2 = status_var st"
        "dialogs st2 = dialogs st" "manager_url st2 = manager_url st" "manager_auth st2 = manager_auth st"
      by (simp_all add: st2_def manager_url_def manager_auth_def)
    have others: "item_values (tree st2) k = item_values (tree st) k" if "k \<in> set items" for k
    proof -
      from that Cons.prems(1) have "k \<noteq> i" by auto
      then show ?thesis by (simp add: item_values_def f map_of_filter_other)
    qed
    have same: "delete_requests st2 items = delete_requests st items"
      by (rule delete_requests_cong) (simp_all add: f others)
    have sub: "set items \<subseteq> set (get_children (tree st2))"
    proof
      fix k assume k: "k \<in> set items"
      with Cons.prems(1) have "k \<noteq> i" by auto
      moreover from k Cons.prems(2) have "k \<in> set (get_children (tree st))" by auto
      ultimately show "k \<in> set (get_children (tree st2))"
        by (auto simp: get_children_def f)
    qed
    have pre: "distinct items" "url = manager_url st2" "au = manager_auth st2"
      using Cons.prems by (simp_all add: f)
    from Cons.IH [OF pre(1) sub pre(2,3), of "Suc sc" fc] obtain st' where
      ih: "delete_loop srv url au items (Suc sc) fc st2 =
            Inr (Suc sc + length (filter (\<lambda>b. b) (answers_ok srv (http_log st2) (delete_requests st2 items))),
                 fc + length (filter Not (answers_ok srv (http_log st2) (delete_requests st2 items))),
                 st')"
          "http_log st' = http_log st2 @ delete_requests st2 items"
          "rows (tree st') =
               filter (\<lambda>(i, _). i \<notin> set (deleted_items items
                          (answers_ok srv (http_log st2) (delete_requests st2 items)))) (rows (tree st2))"
          "status_var st' = status_var st2" "dialogs st' = dialogs st2"
      by blast
    show ?thesis
      using ih Inr
      by (intro exI[of _ st']) (simp add: step reqs same f deleted_items_Cons case_prod_unfold del: delete_loop.simps)
  qed
qed

lemma length_answers_ok [simp]: "length (answers_ok srv log reqs) = length reqs"
  by (induction reqs arbitrary: log) auto

lemma count_true_false: "length (filter (\<lambda>b. b) oks) + length (filter Not oks) = length oks"
  by (induction oks) auto

lemma delete_report_fields:
  "status_var (delete_report sc fc w) = Txt (''Deleted '' @ str_nat sc @ '' database(s). Failed: '' @ str_nat fc)
   \<and> http_log (delete_report sc fc w) = http_log w \<and> tree (delete_report sc fc w) = tree w"
  by (simp add: delete_report_def Let_def set_status_def show_dialog_def)

lemma delete_loop_attempted_once:
  assumes "distinct items" and "set items \<subseteq> set (get_children (tree st))"
      and "tree w = tree st" and "http_log w = http_log st"
      and "manager_url w = manager_url st" and "manager_auth w = manager_auth st"
  shows "\<exists>sc fc st3. delete_loop srv (manager_url st) (manager_auth st) items 0 0 w = Inr (sc, fc, st3)
           \<and> attempted_once srv st items (delete_report sc fc st3)"
proof -
  have same: "delete_requests w items = delete_requests st items"
    by (rule delete_requests_cong) (simp_all add: assms)
  from delete_loop_spec [where srv = srv and st = w and items = items and sc = 0 and fc = 0
          and url = "manager_url st" and au = "manager_auth st"] assms
  obtain st3 where
    l: "delete_loop srv (manager_url st) (manager_auth st) items 0 0 w =
            Inr (0 + length (filter (\<lambda>b. b) (answers_ok srv (http_log w) (delete_requests w items))),
                 0 + length (filter Not (answers_ok srv (http_log w) (delete_requests w items))),
                 st3)"
       "http_log st3 = http_log w @ delete_requests w items"
       "rows (tree st3) =
               filter (\<lambda>(i, _). i \<notin> set (deleted_items items
                          (answers_ok srv (http_log w) (delete_requests w items)))) (rows (tree w))"
    by auto
  have len: "length (delete_requests st items) = length items"
    by (simp add: delete_requests_def)
  show ?thesis
    using l count_true_false [of "answers_ok srv (http_log st) (delete_requests st items)"]
    by (intro exI[of _ "length (filter (\<lambda>b. b) (answers_ok srv (http_log st) (delete_requests st items)))"]
              exI[of _ "length (filter Not (answers_ok srv (http_log st) (delete_requests st items)))"]
              exI[of _ st3])
       (simp add: attempted_once_def Let_def delete_report_fields same assms len del: delete_loop.simps)
qed

text \<open>
  C8. Once the operator confirms, \<open>delete_selected\<close> (for a non-empty selection) and
  \<open>delete_all\<close> (for a non-empty table) return, having sent exactly one \<open>DELETE\<close> for
  each chosen database, in order, whatever the earlier answers were; the rows removed
  from the table are exactly those whose request succeeded; and the two counts of the
  status line add up to the number of databases chosen.
\<close>

theorem delete_each_once:
  assumes "tree_ok (tree st)"
  shows "(selection (tree st) \<noteq> [] \<longrightarrow>
            (\<exists>st'. delete_selected srv True st = Returned st'
                  \<and> attempted_once srv st (selection (tree st)) st'))
       \<and> (get_children (tree st) \<noteq> [] \<longrightarrow>
            (\<exists>st'. delete_all srv True st = Returned st'
                  \<and> attempted_once srv st (get_children (tree st)) st'))"
proof (intro conjI impI)
  assume ne: "selection (tree st) \<noteq> []"
  define w where "w = set_status (Txt (''Deleting '' @ str_nat (length (selection (tree st)))
                          @ '' database(s)...''))
                 (show_dialog (AskYesNo ''Confirm''
                    (Txt (''Delete '' @ str_nat (length (selection (tree st))) @ '' selected database(s)?'' @ nl
                       @ ''This action cannot be undone.''))) st)"
  have f: "tree w = tree st" "http_log w = http_log st" "manager_url w = manager_url st"
      "manager_auth w = manager_auth st"
    by (simp_all add: w_def set_status_def show_dialog_def manager_url_def manager_auth_def)
  have d: "distinct (selection (tree st))" "set (selection (tree st)) \<subseteq> set (get_children (tree st))"
    using assms by (auto simp: tree_ok_def list_all_iff)
  from delete_loop_attempted_once [OF d f, of srv] obtain sc fc st3 where
    l: "delete_loop srv (manager_url st) (manager_auth st) (selection (tree st)) 0 0 w = Inr (sc, fc, st3)"
       "attempted_once srv st (selection (tree st)) (delete_report sc fc st3)"
    by blast
  have "delete_selected srv True st = Returned (delete_report sc fc st3)"
    using ne l(1) by (simp add: delete_selected_def Let_def w_def del: delete_loop.simps)
  with l(2) show "\<exists>st'. delete_selected srv True st = Returned st'
                  \<and> attempted_once srv st (selection (tree st)) st'"
    by blast
next
  assume ne: "get_children (tree st) \<noteq> []"
  define w where "w = set_status (Txt (''Deleting all '' @ str_nat (length (get_children (tree st)))
                          @ '' database(s)...''))
                 (show_dialog (AskYesNo ''Confirm''
                    (Txt (''Delete ALL '' @ str_nat (length (get_children (tree st)))
                       @ '' databases? This action cannot be undone.''))) st)"
  have f: "tree w = tree st" "http_log w = http_log st" "manager_url w = manager_url st"
      "manager_auth w = manager_auth st"
    by (simp_all add: w_def set_status_def show_dialog_def manager_url_def manager_auth_def)
  have d: "distinct (get_children (tree st))" "set (get_children (tree st)) \<subseteq> set (get_children (tree st))"
    using assms by (auto simp: tree_ok_def)
  from delete_loop_attempted_once [OF d f, of srv] obtain sc fc st3 where
    l: "delete_loop srv (manager_url st) (manager_auth st) (get_children (tree st)) 0 0 w = Inr (sc, fc, st3)"
       "attempted_once srv st (get_children (tree st)) (delete_report sc fc st3)"
    by blast
  have "delete_all srv True st = Returned (delete_report sc fc st3)"
    using ne l(1) by (simp add: delete_all_def Let_def w_def del: delete_loop.simps)
  with l(2) show "\<exists>st'. delete_all srv True st = Returned st'
                  \<and> attempted_once srv st (get_children (tree st)) st'"
    by blast
qed

theorem delete_each_once_witness:
  "tree_ok (tree example_manager)
   \<and> selection (tree example_manager) \<noteq> [] \<and> get_children (tree example_manager) \<noteq> []
   \<and> (\<exists>st'. delete_selected beta_missing True example_manager = Returned st'
          \<and> attempted_once beta_missing example_manager [1] st')
   \<and> (\<exists>st'. delete_all beta_missing True example_manager = Returned st'
          \<and> attempted_once beta_missing example_manager [0, 1, 2] st')"
proof -
  have h: "tree_ok (tree example_manager)"
    by (simp add: tree_ok_def example_manager_def get_children_def)
  have s: "selection (tree example_manager) = [1]" "get_children (tree example_manager) = [0, 1, 2]"
    by (simp_all add: example_manager_def get_children_def)
  from delete_each_once [OF h, of beta_missing] h s show ?thesis by simp
qed

lemma delete_all_example:
  "delete_all beta_missing True example_manager =
     Returned (example_manager
       \<lparr>status_var := Txt ''Deleted 2 database(s). Failed: 1'',
        dialogs := [AskYesNo ''Confirm'' (Txt ''Delete ALL 3 databases? This action cannot be undone.''),
                    ShowWarning ''Delete Result''
                      (Txt (''Successfully deleted 2 database(s).'' @ nl @ ''Failed to delete 1 database(s).''))],
        http_log := map (\<lambda>n. \<lparr>req_verb = DELETE, req_url = ''http://127.0.0.1:5984/'' @ n,
                                req_json = None, req_auth = (''admin'', ''secret'')\<rparr>)
                      [''alpha'', ''beta'', ''gamma''],
        tree := \<lparr>rows = [(1, ''beta'')], selection = [1], fresh = 3\<rparr>\<rparr>)"
  by code_simp

section \<open>Loading the documents\<close>

lemma doc_row_design:
  "doc_row row = Inr (Some (doc_id, r, doc)) \<Longrightarrow> \<not> is_design doc_id"
  by (auto simp: doc_row_def is_design_def split: sum.splits pjson.splits if_splits)

lemma set_dict_set: "fst ` set (dict_set d k v) = insert k (fst ` set d)"
  by (simp add: dict_set_def AList.dom_update)

lemma dict_set_keys_pred:
  "list_all (\<lambda>(k, v). P k) d \<Longrightarrow> P k \<Longrightarrow> list_all (\<lambda>(k, v). P k) (dict_set d k v')"
  unfolding dict_set_def by (induction d) auto

lemma docs_loop_no_design:
  "no_design st \<Longrightarrow> docs_loop xs st = (e, st') \<Longrightarrow> no_design st'"
proof (induction xs arbitrary: st)
  case Nil
  then show ?case by simp
next
  case (Cons row xs)
  show ?case
  proof (cases "doc_row row")
    case (Inl a)
    with Cons.prems show ?thesis by simp
  next
    case (Inr v)
    show ?thesis
    proof (cases v)
      case None
      with Inr Cons show ?thesis by simp
    next
      case (Some t)
      obtain doc_id r doc where t: "t = (doc_id, r, doc)" by (cases t)
      from Inr Some t have nd: "\<not> is_design doc_id" using doc_row_design by blast
      let ?st1 = "st\<lparr>docs := dict_set (docs st) doc_id doc,
                      doc_tree := tv_insert (doc_tree st) (doc_id, r)\<rparr>"
      have "no_design ?st1"
        using Cons.prems(1) nd by (simp add: no_design_def tv_insert_def dict_set_keys_pred)
      moreover have "docs_loop xs ?st1 = (e, st')"
        using Cons.prems(2) Inr Some t by simp
      ultimately show ?thesis by (rule Cons.IH)
    qed
  qed
qed

lemma doc_row_ok:
  assumes "row_ok row"
  shows "\<exists>doc. doc_row row =
           (if is_design (row_id row) then Inr None else Inr (Some (row_id row, row_rev row, doc)))"
  using assms
  by (auto simp: row_ok_def doc_row_def row_id_def row_rev_def is_design_def py_get_def
           split: pjson.splits option.splits)

lemma docs_loop_ok:
  assumes "list_all row_ok rs"
  shows "\<exists>st'. docs_loop rs st = (None, st')
           \<and> map snd (rows (doc_tree st')) =
                map snd (rows (doc_tree st))
                  @ map (\<lambda>r. (row_id r, row_rev r)) (filter (\<lambda>r. \<not> is_design (row_id r)) rs)
           \<and> set (map fst (docs st')) =
                set (map fst (docs st)) \<union> set (map row_id (filter (\<lambda>r. \<not> is_design (row_id r)) rs))"
  using assms
proof (induction rs arbitrary: st)
  case Nil
  then show ?case by simp
next
  case (Cons row rs)
  from Cons.prems have ok: "row_ok row" and rest: "list_all row_ok rs" by simp_all
  from doc_row_ok [OF ok] obtain doc where
    d: "doc_row row = (if is_design (row_id row) then Inr None
                        else Inr (Some (row_id row, row_rev row, doc)))"
    by blast
  show ?case
  proof (cases "is_design (row_id row)")
    case True
    with d have "docs_loop (row # rs) st = docs_loop rs st" by simp
    with Cons.IH [OF rest, of st] True show ?thesis by simp
  next
    case False
    define st1 where "st1 = st\<lparr>docs := dict_set (docs st) (row_id row) doc,
                      doc_tree := tv_insert (doc_tree st) (row_id row, row_rev row)\<rparr>"
    have f: "map snd (rows (doc_tree st1)) = map snd (rows (doc_tree st)) @ [(row_id row, row_rev row)]"
        "set (map fst (docs st1)) = insert (row_id row) (set (map fst (docs st)))"
      by (simp_all add: st1_def tv_insert_def set_dict_set)
    from False d have step: "docs_loop (row # rs) st = docs_loop rs st1" by (simp add: st1_def)
    from Cons.IH [OF rest, of st1] obtain st' where
      ih: "docs_loop rs st1 = (None, st')"
          "map snd (rows (doc_tree st')) =
                map snd (rows (doc_tree st1))
                  @ map (\<lambda>r. (row_id r, row_rev r)) (filter (\<lambda>r. \<not> is_design (row_id r)) rs)"
          "set (map fst (docs st')) =
                set (map fst (docs st1)) \<union> set (map row_id (filter (\<lambda>r. \<not> is_design (row_id r)) rs))"
      by blast
    show ?thesis
      using ih False f
      by (intro exI[of _ st']) (simp add: step del: docs_loop.simps)
  qed
qed

lemma load_docs_failed_fields [simp]:
  "doc_tree (load_docs_failed e w) = doc_tree w" "docs (load_docs_failed e w) = docs w"
  by (simp_all add: load_docs_failed_def show_dialog_def set_status_def)

lemma no_design_load_docs_failed [simp]: "no_design (load_docs_failed e w) = no_design w"
  by (simp add: no_design_def)

lemma no_design_set_status [simp]: "no_design (set_status m w) = no_design w"
  by (simp add: no_design_def set_status_def)

lemma load_docs_data:
  assumes "srv (http_log st) (all_docs_request st) = Response status (Some data)"
  shows "load_docs srv st =
     (let st3 = st\<lparr>status_var := Txt ''Loading documents...'',
                   http_log := http_log st @ [all_docs_request st],
                   doc_tree := tv_clear (doc_tree st), docs := []\<rparr>
      in case py_get data ''rows'' (JArr []) of
           Inl e \<Rightarrow> load_docs_failed e st3
         | Inr rows_v \<Rightarrow>
             (case py_iter rows_v of
                Inl e \<Rightarrow> load_docs_failed e st3
              | Inr xs \<Rightarrow>
                  (case docs_loop xs st3 of
                     (Some e, st4) \<Rightarrow> load_docs_failed e st4
                   | (None, st4) \<Rightarrow>
                       set_status (Txt (''Loaded '' @ str_nat (length (docs st4)) @ '' documents'')) st4)))"
  using assms
  by (simp add: load_docs_def Let_def send_def set_status_def resp_json_def all_docs_request_def)

lemma load_docs_no_data:
  assumes "srv (http_log st) (all_docs_request st) = NoResponse
           \<or> srv (http_log st) (all_docs_request st) = Response status None"
  shows "doc_tree (load_docs srv st) = doc_tree st \<and> docs (load_docs srv st) = docs st"
  using assms
  by (auto simp: load_docs_def Let_def send_def set_status_def resp_json_def all_docs_request_def)

lemma load_docs_no_design:
  assumes "srv (http_log st) (all_docs_request st) = Response status (Some data)"
  shows "no_design (load_docs srv st)"
proof -
  define st3 where "st3 = st\<lparr>status_var := Txt ''Loading documents...'',
                   http_log := http_log st @ [all_docs_request st],
                   doc_tree := tv_clear (doc_tree st), docs := []\<rparr>"
  have nd: "no_design st3" by (simp add: st3_def no_design_def tv_clear_def)
  have loop: "no_design (fst (case docs_loop xs st3 of (e, st4) \<Rightarrow> (st4, e)))" for xs
    using docs_loop_no_design [OF nd] by (cases "docs_loop xs st3") auto
  show ?thesis
    unfolding load_docs_data [where srv = srv and st = st, OF assms] Let_def st3_def [symmetric]
    using nd docs_loop_no_design [OF nd]
    by (auto split: sum.split prod.split option.split)
qed

text \<open>
  C2. When the server answers the request for the documents with a JSON body,
  no id of the document list or of the cache starts with \<open>_design/\<close> after
  \<open>load_docs\<close>; with any other answer the list and the cache are as before, so nothing
  is inserted. When the body is an object whose \<open>rows\<close> are rows as CouchDB sends them
  (objects with a string \<open>id\<close> and an object \<open>value\<close>), the document list holds, in
  order, the id and the revision of every row whose id does not start with \<open>_design/\<close>,
  and the keys of the cache are these ids.
\<close>

theorem load_docs_skips_design:
  "(case srv (http_log st) (all_docs_request st) of
      Response status (Some data) \<Rightarrow> no_design (load_docs srv st)
    | _ \<Rightarrow> doc_tree (load_docs srv st) = doc_tree st \<and> docs (load_docs srv st) = docs st)
   \<and> (srv (http_log st) (all_docs_request st) = Response status' (Some data')
        \<longrightarrow> py_get data' ''rows'' (JArr []) = Inr (JArr rs) \<longrightarrow> list_all row_ok rs
        \<longrightarrow> map snd (rows (doc_tree (load_docs srv st))) =
              map (\<lambda>r. (row_id r, row_rev r)) (filter (\<lambda>r. \<not> is_design (row_id r)) rs)
            \<and> set (map fst (docs (load_docs srv st)))
                = set (map row_id (filter (\<lambda>r. \<not> is_design (row_id r)) rs)))"
proof (intro conjI impI)
  show "case srv (http_log st) (all_docs_request st) of
      Response status (Some data) \<Rightarrow> no_design (load_docs srv st)
    | _ \<Rightarrow> doc_tree (load_docs srv st) = doc_tree st \<and> docs (load_docs srv st) = docs st"
  proof (cases "srv (http_log st) (all_docs_request st)")
    case NoResponse
    with load_docs_no_data [of srv st] show ?thesis by simp
  next
    case (Response status body)
    show ?thesis
    proof (cases body)
      case None
      with Response load_docs_no_data [of srv st status] show ?thesis by simp
    next
      case (Some data)
      with Response load_docs_no_design [of srv st status data] show ?thesis by simp
    qed
  qed
next
  assume r: "srv (http_log st) (all_docs_request st) = Response status' (Some data')"
     and g: "py_get data' ''rows'' (JArr []) = Inr (JArr rs)" and ok: "list_all row_ok rs"
  define st3 where "st3 = st\<lparr>status_var := Txt ''Loading documents...'',
                   http_log := http_log st @ [all_docs_request st],
                   doc_tree := tv_clear (doc_tree st), docs := []\<rparr>"
  from docs_loop_ok [OF ok, of st3] obtain st4 where
    l: "docs_loop rs st3 = (None, st4)"
       "map snd (rows (doc_tree st4)) =
                map snd (rows (doc_tree st3))
                  @ map (\<lambda>r. (row_id r, row_rev r)) (filter (\<lambda>r. \<not> is_design (row_id r)) rs)"
       "set (map fst (docs st4)) =
                set (map fst (docs st3)) \<union> set (map row_id (filter (\<lambda>r. \<not> is_design (row_id r)) rs))"
    by blast
  have e: "rows (doc_tree st3) = []" "docs st3 = []"
    by (simp_all add: st3_def tv_clear_def)
  have ld: "load_docs srv st =
              set_status (Txt (''Loaded '' @ str_nat (length (docs st4)) @ '' documents'')) st4"
    unfolding load_docs_data [where srv = srv and st = st, OF r] Let_def st3_def [symmetric]
    using g l(1) by (simp add: py_iter_def)
  show "map snd (rows (doc_tree (load_docs srv st))) =
              map (\<lambda>r. (row_id r, row_rev r)) (filter (\<lambda>r. \<not> is_design (row_id r)) rs)"
    using l(2) e by (simp add: ld set_status_def)
  show "set (map fst (docs (load_docs srv st)))
          = set (map row_id (filter (\<lambda>r. \<not> is_design (row_id r)) rs))"
    using l(3) e by (simp add: ld set_status_def)
qed

theorem load_docs_skips_design_witness:
  "two_rows_server (http_log example_browse) (all_docs_request example_browse)
     = Response 200 (Some two_rows)
   \<and> py_get two_rows ''rows'' (JArr []) = Inr (JArr design_and_d2)
   \<and> list_all row_ok design_and_d2
   \<and> no_design (load_docs two_rows_server example_browse)
   \<and> map snd (rows (doc_tree (load_docs two_rows_server example_browse))) = [(''d2'', JStr ''3-c'')]
   \<and> set (map fst (docs (load_docs two_rows_server example_browse))) = {''d2''}"
proof -
  have a: "two_rows_server (http_log example_browse) (all_docs_request example_browse)
     = Response 200 (Some two_rows)"
    by (simp add: two_rows_server_def)
  have b: "py_get two_rows ''rows'' (JArr []) = Inr (JArr design_and_d2)"
    by (simp add: two_rows_def py_get_def)
  have c: "list_all row_ok design_and_d2"
    by (simp add: row_ok_def design_and_d2_def)
  have d: "map (\<lambda>r. (row_id r, row_rev r)) (filter (\<lambda>r. \<not> is_design (row_id r)) design_and_d2)
             = [(''d2'', JStr ''3-c'')]"
    by (simp add: row_id_def row_rev_def is_design_def py_get_def startswith_def design_and_d2_def)
  have e: "map row_id (filter (\<lambda>r. \<not> is_design (row_id r)) design_and_d2) = [''d2'']"
    by (simp add: row_id_def is_design_def py_get_def startswith_def design_and_d2_def)
  note t = load_docs_skips_design [where srv = two_rows_server and st = example_browse
         and status' = 200 and data' = two_rows and rs = design_and_d2]
  from t have n: "no_design (load_docs two_rows_server example_browse)"
    by (simp add: a)
  from t a b c have
    "map snd (rows (doc_tree (load_docs two_rows_server example_browse))) =
       map (\<lambda>r. (row_id r, row_rev r)) (filter (\<lambda>r. \<not> is_design (row_id r)) design_and_d2)
     \<and> set (map fst (docs (load_docs two_rows_server example_browse)))
         = set (map row_id (filter (\<lambda>r. \<not> is_design (row_id r)) design_and_d2))"
    by blast
  then have r: "map snd (rows (doc_tree (load_docs two_rows_server example_browse))) = [(''d2'', JStr ''3-c'')]
     \<and> set (map fst (docs (load_docs two_rows_server example_browse))) = {''d2''}"
    by (simp only: d e) simp
  from a b c n r show ?thesis by (intro conjI) (erule conjunct1 conjunct2 | assumption)+
qed

section \<open>Filtering with an empty search text\<close>





lemma null_body_cache:
  "docs null_body_browse = [(''d3'', JNull)] \<and> search_var null_body_browse = []
   \<and> map snd (rows (doc_tree null_body_browse)) = [(''d3'', JStr ''2-b'')]"
  by code_simp


end
